theory Spec2Isabelle
  imports Complex_Main "HOL-Library.Sublist"
begin

section \<open>Python values and library boundary\<close>

text \<open>
  The servers exchange JSON. A value produced by \<^verbatim>\<open>json.loads\<close> (or by
  \<^verbatim>\<open>request.json\<close>) is one of the shapes below. A Python \<^verbatim>\<open>dict\<close> is an
  association list in insertion order with distinct keys; a Python \<^verbatim>\<open>float\<close> is
  denoted by the quotient it was computed from. Strings are byte strings: the case
  mapping and the whitespace test below are the ASCII parts of Python's, and agree with
  \<^verbatim>\<open>str.lower\<close> and \<^verbatim>\<open>str.strip\<close> on ASCII strings only. A property that rests on
  more of them than the idempotence of the case mapping is stated for ASCII strings.
\<close>

datatype json =
    JNull
  | JBool bool
  | JInt int
  | JFloat rat
  | JStr string
  | JList "json list"
  | JObj "(string \<times> json) list"

type_synonym pydict = "(string \<times> json) list"

text \<open>
  The protein database \<^verbatim>\<open>DB: dict[str, dict[str, Any]]\<close> is loaded from
  \<^verbatim>\<open>protein_db.json\<close>, a data file that is not among the sources: every function
  below takes it as a parameter.
\<close>

type_synonym protein_db = "(string \<times> pydict) list"

datatype py_error =
    AttributeError
  | TypeError
  | KeyError string
  | ValueError string

text \<open>
  Library functions whose text is not part of the repository are parameters:
  \<^verbatim>\<open>json.dumps(x, indent=...)\<close> and \<^verbatim>\<open>str(x)\<close> of a value that is not a string
  (what an f-string does with it).
\<close>

record pylib =
  json_dumps :: "nat option \<Rightarrow> json \<Rightarrow> string"
  py_str :: "json \<Rightarrow> string"

definition py_format :: "pylib \<Rightarrow> json \<Rightarrow> string" where
  "py_format L v = (case v of JStr s \<Rightarrow> s | _ \<Rightarrow> py_str L v)"

subsection \<open>Dictionaries\<close>

definition dict_get :: "('k \<times> 'v) list \<Rightarrow> 'k \<Rightarrow> 'v option" where
  "dict_get d k = map_of d k"

definition dict_get_default :: "('k \<times> 'v) list \<Rightarrow> 'k \<Rightarrow> 'v \<Rightarrow> 'v" where
  "dict_get_default d k dflt = (case map_of d k of Some v \<Rightarrow> v | None \<Rightarrow> dflt)"

definition dict_contains :: "('k \<times> 'v) list \<Rightarrow> 'k \<Rightarrow> bool" where
  "dict_contains d k = (map_of d k \<noteq> None)"

text \<open>\<^verbatim>\<open>d[k]\<close>: raises \<^verbatim>\<open>KeyError\<close> on a missing key.\<close>

definition dict_item :: "(string \<times> 'v) list \<Rightarrow> string \<Rightarrow> py_error + 'v" where
  "dict_item d k = (case map_of d k of Some v \<Rightarrow> Inr v | None \<Rightarrow> Inl (KeyError k))"

text \<open>\<^verbatim>\<open>d[k] = v\<close>: an existing key keeps its position.\<close>

fun dict_set :: "('k \<times> 'v) list \<Rightarrow> 'k \<Rightarrow> 'v \<Rightarrow> ('k \<times> 'v) list" where
  "dict_set [] k v = [(k, v)]"
| "dict_set ((k', v') # d) k v =
     (if k' = k then (k, v) # d else (k', v') # dict_set d k v)"

text \<open>\<^verbatim>\<open>{**d1, **d2}\<close>.\<close>

definition dict_merge :: "('k \<times> 'v) list \<Rightarrow> ('k \<times> 'v) list \<Rightarrow> ('k \<times> 'v) list" where
  "dict_merge d1 d2 = fold (\<lambda>(k, v) d. dict_set d k v) d2 d1"

subsection \<open>Strings\<close>

definition lower_char :: "char \<Rightarrow> char" where
  "lower_char c =
     (let n = (of_char c :: nat) in if 65 \<le> n \<and> n \<le> 90 then char_of (n + 32) else c)"

definition lower :: "string \<Rightarrow> string" where
  "lower s = map lower_char s"

text \<open>\<^verbatim>\<open>a in b\<close> on strings: \<open>a\<close> occurs in \<open>b\<close> as a contiguous block.\<close>

fun py_in :: "string \<Rightarrow> string \<Rightarrow> bool" where
  "py_in a [] = (a = [])"
| "py_in a (c # cs) = (prefix a (c # cs) \<or> py_in a cs)"

text \<open>\<^verbatim>\<open>s.split('\n')\<close>: never empty, one more piece than there are newlines.\<close>

fun split_nl :: "string \<Rightarrow> string list" where
  "split_nl [] = [[]]"
| "split_nl (c # cs) =
     (if c = CHR ''\<newline>'' then [] # split_nl cs
      else (case split_nl cs of [] \<Rightarrow> [[c]] | l # ls \<Rightarrow> (c # l) # ls))"

text \<open>\<^verbatim>\<open>'\n'.join(xs)\<close> on strings.\<close>

fun join_nl :: "string list \<Rightarrow> string" where
  "join_nl [] = []"
| "join_nl [x] = x"
| "join_nl (x # y # ys) = x @ CHR ''\<newline>'' # join_nl (y # ys)"

definition is_space :: "char \<Rightarrow> bool" where
  "is_space c = (let n = (of_char c :: nat) in n = 32 \<or> (9 \<le> n \<and> n \<le> 13) \<or> (28 \<le> n \<and> n \<le> 31))"

text \<open>The truth value of \<^verbatim>\<open>line.strip()\<close>: some character is not whitespace.\<close>

definition strip_nonempty :: "string \<Rightarrow> bool" where
  "strip_nonempty s = (filter (\<lambda>c. \<not> is_space c) s \<noteq> [])"

definition digit_char :: "nat \<Rightarrow> char" where
  "digit_char d = char_of (48 + d)"

function str_nat :: "nat \<Rightarrow> string" where
  "str_nat n = (if n < 10 then [digit_char n] else str_nat (n div 10) @ [digit_char (n mod 10)])"
  by pat_completeness auto
termination
  by (relation "measure id") auto

declare str_nat.simps [simp del]

section \<open>SDK server: resources and tools of \<^verbatim>\<open>mcp_advanced_server.py\<close>\<close>

text \<open>
  A tool returns a value or raises. The module-level dictionary
  \<^verbatim>\<open>pending_callbacks: dict[str, dict]\<close> is the state the sampling tools read and
  write; a tool that touches it returns the outcome together with the dictionary as it
  stands afterwards, also when the outcome is an exception.
\<close>

type_synonym ledger = "string \<rightharpoonup> pydict"

text \<open>
  \<^verbatim>\<open>generate_hypothesis\<close>: the fresh token \<^verbatim>\<open>str(uuid.uuid4())\<close> is drawn outside
  the program, so it is an argument. The entry is stored before the prompt is built.
\<close>

definition generate_hypothesis ::
  "pylib \<Rightarrow> protein_db \<Rightarrow> string \<Rightarrow> string \<Rightarrow> ledger \<Rightarrow> (py_error + string) \<times> ledger" where
  "generate_hypothesis L DB token protein_id pending_callbacks =
     (case dict_get DB protein_id of
        None \<Rightarrow> (Inl (ValueError (''Unknown protein_id: '' @ protein_id)), pending_callbacks)
      | Some info \<Rightarrow>
          (let pending' = pending_callbacks(token \<mapsto> [(''protein_id'', JStr protein_id)]) in
           case dict_item info ''name'' of
             Inl e \<Rightarrow> (Inl e, pending')
           | Inr nm \<Rightarrow>
               (case dict_item info ''function'' of
                  Inl e \<Rightarrow> (Inl e, pending')
                | Inr fn \<Rightarrow>
                    (Inr (json_dumps L (Some 2) (JObj
                       [(''result_type'', JStr ''sampling''),
                        (''prompt'', JStr (''The protein '' @ py_format L nm @ '' is known to ''
                           @ py_format L fn @ ''. Generate a novel research hypothesis.'')),
                        (''callback_token'', JStr token)])),
                     pending'))))"

text \<open>
  \<^verbatim>\<open>submit_sampling_result\<close>: \<^verbatim>\<open>pop\<close> removes the entry before its
  \<^verbatim>\<open>protein_id\<close> is read.
\<close>

definition submit_sampling_result ::
  "pylib \<Rightarrow> string \<Rightarrow> string \<Rightarrow> ledger \<Rightarrow> (py_error + string) \<times> ledger" where
  "submit_sampling_result L callback_token llm_result pending_callbacks =
     (case pending_callbacks callback_token of
        None \<Rightarrow> (Inl (ValueError ''Invalid callback token''), pending_callbacks)
      | Some protein_info \<Rightarrow>
          (let pending' = pending_callbacks(callback_token := None) in
           case dict_item protein_info ''protein_id'' of
             Inl e \<Rightarrow> (Inl e, pending')
           | Inr protein_id \<Rightarrow>
               (Inr (json_dumps L (Some 2) (JObj
                  [(''result_type'', JStr ''sampling_complete''),
                   (''protein_id'', protein_id),
                   (''llm_result'', JStr llm_result),
                   (''status'', JStr ''success'')])),
                pending')))"

text \<open>
  \<^verbatim>\<open>get_protein\<close>, the producer of the resource \<^verbatim>\<open>protein://{protein_id}\<close>
  (the same text in \<^verbatim>\<open>mcp_basic_server.py\<close>). \<^verbatim>\<open>not record\<close> holds for a missing
  id and for an empty record. The result is the body and its media type.
\<close>

definition get_protein :: "pylib \<Rightarrow> protein_db \<Rightarrow> string \<Rightarrow> string \<times> string" where
  "get_protein L DB protein_id =
     (let record = dict_get DB protein_id in
      if record = None \<or> record = Some [] then
        (json_dumps L None (JObj [(''error'', JStr (''Unknown protein_id: '' @ protein_id))]),
         ''application/json'')
      else
        (json_dumps L (Some 2) (JObj (dict_merge [(''id'', JStr protein_id)] (the record))),
         ''application/json''))"

text \<open>\<^verbatim>\<open>get_protein_function\<close> (the same text in \<^verbatim>\<open>mcp_basic_server.py\<close>).\<close>

definition get_protein_function :: "protein_db \<Rightarrow> string \<Rightarrow> py_error + json" where
  "get_protein_function DB protein_id =
     (let rec = dict_get DB protein_id in
      if rec = None \<or> rec = Some [] then
        Inl (ValueError (''Unknown protein_id: '' @ protein_id))
      else dict_item (the rec) ''function'')"

definition squote :: string where
  "squote = [CHR 0x27]"

text \<open>The search loop of \<^verbatim>\<open>find_protein\<close> over \<^verbatim>\<open>DB.items()\<close>.\<close>

fun find_matches :: "string \<Rightarrow> protein_db \<Rightarrow> py_error + json list" where
  "find_matches protein_name [] = Inr []"
| "find_matches protein_name ((protein_id, data) # rest) =
     (case dict_get_default data ''name'' (JStr []) of
        JStr nm \<Rightarrow>
          if py_in protein_name (lower nm) then
            (case dict_item data ''name'' of
               Inl e \<Rightarrow> Inl e
             | Inr n \<Rightarrow>
                 (case find_matches protein_name rest of
                    Inl e \<Rightarrow> Inl e
                  | Inr matches \<Rightarrow> Inr (JObj [(''id'', JStr protein_id), (''name'', n)] # matches)))
          else find_matches protein_name rest
      | _ \<Rightarrow> Inl AttributeError)"

definition elicitation_payload :: json where
  "elicitation_payload = JObj
     [(''result_type'', JStr ''elicitation''),
      (''message'', JStr (''Multiple proteins match '' @ squote @ ''p53'' @ squote @ ''. Please specify:'')),
      (''choices'', JList
         [JObj [(''label'', JStr ''Human p53''), (''value'', JStr ''P53_HUMAN'')],
          JObj [(''label'', JStr ''Mouse p53''), (''value'', JStr ''P53_MOUSE'')]])]"

definition find_protein :: "pylib \<Rightarrow> protein_db \<Rightarrow> string \<Rightarrow> py_error + string" where
  "find_protein L DB protein_name0 =
     (let protein_name = lower protein_name0 in
      if protein_name = ''p53'' then Inr (json_dumps L (Some 2) elicitation_payload)
      else
        (case find_matches protein_name DB of
           Inl e \<Rightarrow> Inl e
         | Inr matches \<Rightarrow>
             if matches \<noteq> [] then
               Inr (json_dumps L (Some 2) (JObj
                 [(''result_type'', JStr ''matches''), (''matches'', JList matches)]))
             else
               Inr (json_dumps L (Some 2) (JObj
                 [(''result_type'', JStr ''error''),
                  (''message'', JStr (''No proteins found matching '' @ squote @ protein_name @ squote))]))))"

subsection \<open>Streaming\<close>

text \<open>
  What a run of \<^verbatim>\<open>stream_analysis_log\<close> shows to its caller, in order:
  \<^verbatim>\<open>ctx.report_progress(progress, total, message)\<close>, \<^verbatim>\<open>ctx.info(text)\<close>, and last
  the returned string or the exception. The pause between two steps is left out.
\<close>

datatype event =
    Progress nat nat json
  | Info string
  | Returned string
  | Raised py_error

definition default_log :: "pylib \<Rightarrow> pydict \<Rightarrow> string \<Rightarrow> json" where
  "default_log L protein_data protein_id = JList
     [JStr (''Starting analysis of '' @ py_format L (dict_get_default protein_data ''name'' (JStr protein_id))),
      JStr ''Loading sequence data...'',
      JStr ''Analyzing domain structure...'',
      JStr ''Predicting secondary structure...'',
      JStr ''Identifying functional motifs...'',
      JStr ''Comparing with homologs...'',
      JStr ''Checking post-translational modifications...'',
      JStr ''Validating structural predictions...'',
      JStr ''Assessing stability...'',
      JStr ''Evaluating interaction partners...'',
      JStr ''Generating final report...'',
      JStr (''Analysis complete. Function: '' @ py_format L (dict_get_default protein_data ''function'' (JStr ''Unknown'')))]"

text \<open>
  The lines the loop runs over: a string is split at newlines, anything else is
  iterated as it is (a list by its items, a dictionary by its keys; the other values
  are not iterable).
\<close>

definition log_lines_of :: "json \<Rightarrow> py_error + json list" where
  "log_lines_of log_data =
     (case log_data of
        JStr s \<Rightarrow> Inr (map JStr (split_nl s))
      | JList xs \<Rightarrow> Inr xs
      | JObj kvs \<Rightarrow> Inr (map (\<lambda>kv. JStr (fst kv)) kvs)
      | _ \<Rightarrow> Inl TypeError)"

fun report_lines :: "pylib \<Rightarrow> nat \<Rightarrow> nat \<Rightarrow> json list \<Rightarrow> event list" where
  "report_lines L i n [] = []"
| "report_lines L i n (line # rest) =
     Progress i n line
     # Info (''Step '' @ str_nat i @ ''/'' @ str_nat n @ '': '' @ py_format L line)
     # report_lines L (Suc i) n rest"

text \<open>The items of \<^verbatim>\<open>'\n'.join(results)\<close> must all be strings.\<close>

fun str_items :: "json list \<Rightarrow> py_error + string list" where
  "str_items [] = Inr []"
| "str_items (v # vs) =
     (case v of
        JStr s \<Rightarrow> (case str_items vs of Inl e \<Rightarrow> Inl e | Inr ss \<Rightarrow> Inr (s # ss))
      | _ \<Rightarrow> Inl TypeError)"

definition stream_analysis_log :: "pylib \<Rightarrow> protein_db \<Rightarrow> string \<Rightarrow> event list" where
  "stream_analysis_log L DB protein_id =
     (case dict_get DB protein_id of
        None \<Rightarrow> [Raised (ValueError (''Unknown protein_id: '' @ protein_id))]
      | Some protein_data \<Rightarrow>
          (case log_lines_of
                  (dict_get_default protein_data ''log'' (default_log L protein_data protein_id)) of
             Inl e \<Rightarrow> [Raised e]
           | Inr log_lines \<Rightarrow>
               report_lines L 1 (length log_lines) log_lines
               @ [case str_items log_lines of
                    Inl e \<Rightarrow> Raised e
                  | Inr results \<Rightarrow> Returned (join_nl results)]))"

text \<open>The progress notifications of a run, each as (progress, total, message).\<close>

fun progress_of :: "event list \<Rightarrow> (nat \<times> nat \<times> json) list" where
  "progress_of [] = []"
| "progress_of (Progress i t m # es) = (i, t, m) # progress_of es"
| "progress_of (e # es) = progress_of es"

section \<open>Hand-written servers: \<^verbatim>\<open>MCP_scratch/basic_server.py\<close> and \<^verbatim>\<open>advanced_server.py\<close>\<close>

text \<open>
  \<^verbatim>\<open>handle_mcp\<close> answers one POST. It returns \<^verbatim>\<open>jsonify(...)\<close> of an envelope or,
  for the streaming tool, a \<^verbatim>\<open>Response\<close> over a generator of text chunks. An exception
  that leaves the function (the framework turns it into a status 500 page) is the left
  summand. Writing to the logger is left out.
\<close>

datatype response =
    Jsonify json
  | StreamResponse "py_error + string list"

text \<open>\<^verbatim>\<open>x.get(k, dflt)\<close> on a value of any shape: only a dictionary has the method.\<close>

definition py_get :: "json \<Rightarrow> string \<Rightarrow> json \<Rightarrow> py_error + json" where
  "py_get x k dflt = (case x of JObj d \<Rightarrow> Inr (dict_get_default d k dflt) | _ \<Rightarrow> Inl AttributeError)"

text \<open>\<^verbatim>\<open>k in protein_db\<close>: a list or a dictionary is not hashable.\<close>

definition key_in_db :: "json \<Rightarrow> protein_db \<Rightarrow> py_error + bool" where
  "key_in_db k protein_db =
     (case k of
        JStr s \<Rightarrow> Inr (dict_contains protein_db s)
      | JList xs \<Rightarrow> Inl TypeError
      | JObj kvs \<Rightarrow> Inl TypeError
      | _ \<Rightarrow> Inr False)"

definition db_json :: "protein_db \<Rightarrow> json" where
  "db_json protein_db = JObj (map (\<lambda>kv. (fst kv, JObj (snd kv))) protein_db)"

definition result_envelope :: "json \<Rightarrow> json \<Rightarrow> json" where
  "result_envelope res request_id =
     JObj [(''jsonrpc'', JStr ''2.0''), (''result'', res), (''id'', request_id)]"

definition error_envelope :: "int \<Rightarrow> string \<Rightarrow> json \<Rightarrow> json" where
  "error_envelope code message request_id =
     JObj [(''jsonrpc'', JStr ''2.0''),
           (''error'', JObj [(''code'', JInt code), (''message'', JStr message)]),
           (''id'', request_id)]"

definition text_content :: "string \<Rightarrow> json" where
  "text_content s = JList [JObj [(''type'', JStr ''text''), (''text'', JStr s)]]"

definition resources_read :: "pylib \<Rightarrow> protein_db \<Rightarrow> json \<Rightarrow> json \<Rightarrow> py_error + response" where
  "resources_read L protein_db params request_id =
     (case py_get params ''uri'' JNull of
        Inl e \<Rightarrow> Inl e
      | Inr uri \<Rightarrow>
          if uri = JStr ''protein://proteins'' then
            Inr (Jsonify (result_envelope
              (JObj [(''contents'', JList [JObj
                 [(''uri'', uri),
                  (''mimeType'', JStr ''application/json''),
                  (''value'', JStr (json_dumps L None (db_json protein_db)))]])])
              request_id))
          else Inr (Jsonify (error_envelope (- 32601) ''Resource not found'' request_id)))"

subsection \<open>The basic server\<close>

definition basic_initialize_result :: json where
  "basic_initialize_result = JObj
     [(''protocolVersion'', JStr ''2024-11-05''),
      (''capabilities'', JObj [(''resources'', JObj []), (''tools'', JObj []), (''logging'', JObj [])]),
      (''serverInfo'', JObj [(''name'', JStr ''Protein MCP Server''), (''version'', JStr ''1.0.0'')])]"

definition basic_resources_list_result :: json where
  "basic_resources_list_result = JObj
     [(''resources'', JList [JObj
        [(''uri'', JStr ''protein://proteins''),
         (''name'', JStr ''Protein Database''),
         (''description'', JStr ''Sample protein data''),
         (''mimeType'', JStr ''application/json'')]])]"

definition basic_tools_list_result :: json where
  "basic_tools_list_result = JObj
     [(''tools'', JList [JObj
        [(''name'', JStr ''get_protein_function''),
         (''description'', JStr ''Get protein function by ID''),
         (''inputSchema'', JObj
            [(''type'', JStr ''object''),
             (''properties'', JObj [(''protein_id'', JObj
                [(''type'', JStr ''string''),
                 (''description'', JStr ''Protein ID (e.g., P53_HUMAN)'')])]),
             (''required'', JList [JStr ''protein_id''])])]])]"

definition basic_tools_call :: "pylib \<Rightarrow> protein_db \<Rightarrow> json \<Rightarrow> json \<Rightarrow> py_error + response" where
  "basic_tools_call L protein_db params request_id =
     (case py_get params ''name'' JNull of
        Inl e \<Rightarrow> Inl e
      | Inr tool_name \<Rightarrow>
     (case py_get params ''arguments'' (JObj []) of
        Inl e \<Rightarrow> Inl e
      | Inr arguments \<Rightarrow>
          if tool_name = JStr ''get_protein_function'' then
            (case py_get arguments ''protein_id'' JNull of
               Inl e \<Rightarrow> Inl e
             | Inr protein_id \<Rightarrow>
            (case key_in_db protein_id protein_db of
               Inl e \<Rightarrow> Inl e
             | Inr False \<Rightarrow>
                 Inr (Jsonify (error_envelope (- 32602)
                   (''Protein '' @ py_format L protein_id @ '' not found'') request_id))
             | Inr True \<Rightarrow>
                 (case dict_item (dict_get_default protein_db (py_format L protein_id) []) ''function'' of
                    Inl e \<Rightarrow> Inl e
                  | Inr fn \<Rightarrow>
                      Inr (Jsonify (result_envelope
                        (JObj [(''content'', text_content
                           (''Function of '' @ py_format L protein_id @ '': '' @ py_format L fn))])
                        request_id)))))
          else Inr (Jsonify (error_envelope (- 32601) ''Tool not found'' request_id))))"

definition handle_mcp_basic :: "pylib \<Rightarrow> protein_db \<Rightarrow> json \<Rightarrow> py_error + response" where
  "handle_mcp_basic L protein_db data =
     (case py_get data ''jsonrpc'' JNull of
        Inl e \<Rightarrow> Inl e
      | Inr version \<Rightarrow>
          if version \<noteq> JStr ''2.0'' then
            Inr (Jsonify (error_envelope (- 32600) ''Invalid Request'' JNull))
          else
            (case (py_get data ''method'' JNull, py_get data ''params'' (JObj []), py_get data ''id'' JNull) of
               (Inr method, Inr params, Inr request_id) \<Rightarrow>
                 if method = JStr ''initialize'' then
                   Inr (Jsonify (result_envelope basic_initialize_result request_id))
                 else if method = JStr ''resources/list'' then
                   Inr (Jsonify (result_envelope basic_resources_list_result request_id))
                 else if method = JStr ''resources/read'' then
                   resources_read L protein_db params request_id
                 else if method = JStr ''tools/list'' then
                   Inr (Jsonify (result_envelope basic_tools_list_result request_id))
                 else if method = JStr ''tools/call'' then
                   basic_tools_call L protein_db params request_id
                 else if method = JStr ''notifications/initialized'' then
                   Inr (Jsonify (result_envelope JNull request_id))
                 else Inr (Jsonify (error_envelope (- 32601) ''Method not found'' request_id))
             | _ \<Rightarrow> Inl AttributeError))"

subsection \<open>The advanced server\<close>

definition advanced_initialize_result :: json where
  "advanced_initialize_result = JObj
     [(''protocolVersion'', JStr ''2024-11-05''),
      (''capabilities'', JObj
         [(''resources'', JObj [(''listChanged'', JBool True)]),
          (''tools'', JObj []), (''logging'', JObj []), (''prompts'', JObj [])]),
      (''serverInfo'', JObj
         [(''name'', JStr ''Advanced Protein MCP Server''), (''version'', JStr ''1.0.0'')])]"

definition advanced_resources_list_result :: json where
  "advanced_resources_list_result = JObj
     [(''resources'', JList [JObj
        [(''uri'', JStr ''protein://proteins''),
         (''name'', JStr ''Protein Database''),
         (''description'', JStr ''Sample protein data with streaming capability''),
         (''mimeType'', JStr ''application/json'')]])]"

definition tool_schema :: "string \<Rightarrow> string \<Rightarrow> string \<Rightarrow> string \<Rightarrow> json" where
  "tool_schema name description arg arg_description = JObj
     [(''name'', JStr name),
      (''description'', JStr description),
      (''inputSchema'', JObj
         [(''type'', JStr ''object''),
          (''properties'', JObj [(arg, JObj
             [(''type'', JStr ''string''), (''description'', JStr arg_description)])]),
          (''required'', JList [JStr arg])])]"

definition advanced_tools_list_result :: json where
  "advanced_tools_list_result = JObj
     [(''tools'', JList
        [tool_schema ''find_protein'' ''Find protein by name with disambiguation''
           ''protein_name'' ''Protein name to search for'',
         tool_schema ''analyze_protein_stream'' ''Stream protein analysis in real-time''
           ''protein_id'' ''Protein ID to analyze'',
         tool_schema ''get_protein_hypothesis'' ''Generate research hypothesis for a protein''
           ''protein_id'' ''Protein ID''])]"

definition prompts_list_result :: json where
  "prompts_list_result = JObj
     [(''prompts'', JList [JObj
        [(''name'', JStr ''protein_analysis''),
         (''description'', JStr ''Generate comprehensive protein analysis''),
         (''arguments'', JList [JObj
            [(''name'', JStr ''protein_id''),
             (''description'', JStr ''ID of the protein to analyze''),
             (''required'', JBool True)]])]])]"

text \<open>The search loop of the tool \<^verbatim>\<open>find_protein\<close> of this server.\<close>

fun find_matches_text :: "pylib \<Rightarrow> string \<Rightarrow> protein_db \<Rightarrow> py_error + string list" where
  "find_matches_text L protein_name [] = Inr []"
| "find_matches_text L protein_name ((protein_id, info) # rest) =
     (case dict_item info ''name'' of
        Inl e \<Rightarrow> Inl e
      | Inr (JStr nm) \<Rightarrow>
          if py_in protein_name (lower nm) then
            (case dict_item info ''organism'' of
               Inl e \<Rightarrow> Inl e
             | Inr organism \<Rightarrow>
                 (case find_matches_text L protein_name rest of
                    Inl e \<Rightarrow> Inl e
                  | Inr matches \<Rightarrow>
                      Inr ((protein_id @ '': '' @ nm @ '' ('' @ py_format L organism @ '')'') # matches)))
          else find_matches_text L protein_name rest
      | Inr _ \<Rightarrow> Inl AttributeError)"

definition tool_find_protein :: "pylib \<Rightarrow> protein_db \<Rightarrow> json \<Rightarrow> json \<Rightarrow> py_error + response" where
  "tool_find_protein L protein_db arguments request_id =
     (case py_get arguments ''protein_name'' (JStr []) of
        Inr (JStr s) \<Rightarrow>
          (let protein_name = lower s in
           if protein_name = ''p53'' then
             Inr (Jsonify (result_envelope
               (JObj [(''content'', text_content
                         (''Multiple proteins match '' @ squote @ ''p53'' @ squote
                          @ ''. Please specify:\<newline>- P53_HUMAN (Human p53)\<newline>- P53_MOUSE (Mouse p53)'')),
                      (''isError'', JBool False)])
               request_id))
           else
             (case find_matches_text L protein_name protein_db of
                Inl e \<Rightarrow> Inl e
              | Inr matches \<Rightarrow>
                  if matches \<noteq> [] then
                    Inr (Jsonify (result_envelope
                      (JObj [(''content'', text_content
                         (''Found '' @ str_nat (length matches) @ '' proteins:\<newline>''
                          @ join_nl (map (\<lambda>m. ''- '' @ m) matches)))])
                      request_id))
                  else Inr (Jsonify (error_envelope (- 32602) ''No proteins found'' request_id))))
      | Inr _ \<Rightarrow> Inl AttributeError
      | Inl e \<Rightarrow> Inl e)"

definition progress_chunk :: "nat \<Rightarrow> nat \<Rightarrow> string \<Rightarrow> json" where
  "progress_chunk i n line = JObj
     [(''jsonrpc'', JStr ''2.0''),
      (''method'', JStr ''tools/call/progress''),
      (''params'', JObj [(''progress'', JObj
         [(''progress'', JFloat (of_nat (i + 1) / of_nat n)),
          (''message'', JStr line)])])]"

text \<open>
  The loop of \<^verbatim>\<open>generate_stream\<close>: \<open>i\<close> is the index \<^verbatim>\<open>enumerate\<close> gives the line,
  \<open>n\<close> is \<^verbatim>\<open>len(log_lines)\<close>. A line of whitespace only yields nothing.
\<close>

fun stream_chunks :: "pylib \<Rightarrow> nat \<Rightarrow> nat \<Rightarrow> string list \<Rightarrow> string list" where
  "stream_chunks L i n [] = []"
| "stream_chunks L i n (line # rest) =
     (if strip_nonempty line
      then [''data: '' @ json_dumps L None (progress_chunk i n line) @ ''\<newline>\<newline>'']
      else [])
     @ stream_chunks L (Suc i) n rest"

definition generate_stream :: "pylib \<Rightarrow> protein_db \<Rightarrow> string \<Rightarrow> py_error + string list" where
  "generate_stream L protein_db protein_id =
     (case dict_item protein_db protein_id of
        Inl e \<Rightarrow> Inl e
      | Inr protein \<Rightarrow>
          (case dict_get_default protein ''log'' (JStr []) of
             JStr s \<Rightarrow>
               (let log_lines = split_nl s in
                Inr (stream_chunks L 0 (length log_lines) log_lines))
           | _ \<Rightarrow> Inl AttributeError))"

definition tool_analyze_protein_stream ::
  "pylib \<Rightarrow> protein_db \<Rightarrow> json \<Rightarrow> json \<Rightarrow> py_error + response" where
  "tool_analyze_protein_stream L protein_db arguments request_id =
     (case py_get arguments ''protein_id'' JNull of
        Inl e \<Rightarrow> Inl e
      | Inr protein_id \<Rightarrow>
          (case key_in_db protein_id protein_db of
             Inl e \<Rightarrow> Inl e
           | Inr False \<Rightarrow> Inr (Jsonify (error_envelope (- 32602) ''Protein not found'' request_id))
           | Inr True \<Rightarrow>
               Inr (StreamResponse (generate_stream L protein_db (py_format L protein_id)))))"

definition tool_get_protein_hypothesis ::
  "pylib \<Rightarrow> protein_db \<Rightarrow> json \<Rightarrow> json \<Rightarrow> py_error + response" where
  "tool_get_protein_hypothesis L protein_db arguments request_id =
     (case py_get arguments ''protein_id'' JNull of
        Inl e \<Rightarrow> Inl e
      | Inr protein_id \<Rightarrow>
          (case key_in_db protein_id protein_db of
             Inl e \<Rightarrow> Inl e
           | Inr False \<Rightarrow> Inr (Jsonify (error_envelope (- 32602) ''Protein not found'' request_id))
           | Inr True \<Rightarrow>
               (let protein_info = dict_get_default protein_db (py_format L protein_id) [] in
                case (dict_item protein_info ''name'', dict_item protein_info ''organism'',
                      dict_item protein_info ''function'') of
                  (Inr nm, Inr organism, Inr fn) \<Rightarrow>
                    Inr (Jsonify (result_envelope
                      (JObj [(''content'', text_content
                         (''PROMPT FOR LLM: Based on this protein information, generate a novel research hypothesis.\<newline>\<newline>Protein: ''
                          @ py_format L nm @ ''\<newline>Organism: '' @ py_format L organism
                          @ ''\<newline>Function: '' @ py_format L fn @ ''\<newline>\<newline>Hypothesis:''))])
                      request_id))
                | (Inl e, _, _) \<Rightarrow> Inl e
                | (_, Inl e, _) \<Rightarrow> Inl e
                | (_, _, Inl e) \<Rightarrow> Inl e)))"

definition advanced_tools_call :: "pylib \<Rightarrow> protein_db \<Rightarrow> json \<Rightarrow> json \<Rightarrow> py_error + response" where
  "advanced_tools_call L protein_db params request_id =
     (case py_get params ''name'' JNull of
        Inl e \<Rightarrow> Inl e
      | Inr tool_name \<Rightarrow>
     (case py_get params ''arguments'' (JObj []) of
        Inl e \<Rightarrow> Inl e
      | Inr arguments \<Rightarrow>
          if tool_name = JStr ''find_protein'' then
            tool_find_protein L protein_db arguments request_id
          else if tool_name = JStr ''analyze_protein_stream'' then
            tool_analyze_protein_stream L protein_db arguments request_id
          else if tool_name = JStr ''get_protein_hypothesis'' then
            tool_get_protein_hypothesis L protein_db arguments request_id
          else Inr (Jsonify (error_envelope (- 32601) ''Tool not found'' request_id))))"

definition prompts_get :: "pylib \<Rightarrow> protein_db \<Rightarrow> json \<Rightarrow> json \<Rightarrow> py_error + response" where
  "prompts_get L protein_db params request_id =
     (case py_get params ''name'' JNull of
        Inl e \<Rightarrow> Inl e
      | Inr prompt_name \<Rightarrow>
     (case py_get params ''arguments'' (JObj []) of
        Inl e \<Rightarrow> Inl e
      | Inr prompt_args \<Rightarrow>
          if prompt_name = JStr ''protein_analysis'' then
            (case py_get prompt_args ''protein_id'' JNull of
               Inl e \<Rightarrow> Inl e
             | Inr protein_id \<Rightarrow>
                 (case key_in_db protein_id protein_db of
                    Inl e \<Rightarrow> Inl e
                  | Inr False \<Rightarrow>
                      Inr (Jsonify (error_envelope (- 32601) ''Prompt not found'' request_id))
                  | Inr True \<Rightarrow>
                      (let protein = dict_get_default protein_db (py_format L protein_id) [] in
                       case (dict_item protein ''name'', dict_item protein ''organism'',
                             dict_item protein ''function'') of
                         (Inr nm, Inr organism, Inr fn) \<Rightarrow>
                           Inr (Jsonify (result_envelope
                             (JObj
                                [(''description'', JStr (''Analysis of '' @ py_format L nm)),
                                 (''messages'', JList [JObj
                                    [(''role'', JStr ''user''),
                                     (''content'', JObj
                                        [(''type'', JStr ''text''),
                                         (''text'', JStr
                                            (''Analyze this protein and provide insights:\<newline>\<newline>Name: ''
                                             @ py_format L nm @ ''\<newline>Organism: ''
                                             @ py_format L organism @ ''\<newline>Function: ''
                                             @ py_format L fn))])]])])
                             request_id))
                       | (Inl e, _, _) \<Rightarrow> Inl e
                       | (_, Inl e, _) \<Rightarrow> Inl e
                       | (_, _, Inl e) \<Rightarrow> Inl e)))
          else Inr (Jsonify (error_envelope (- 32601) ''Prompt not found'' request_id))))"

definition handle_mcp_advanced :: "pylib \<Rightarrow> protein_db \<Rightarrow> json \<Rightarrow> py_error + response" where
  "handle_mcp_advanced L protein_db data =
     (case py_get data ''jsonrpc'' JNull of
        Inl e \<Rightarrow> Inl e
      | Inr version \<Rightarrow>
          if version \<noteq> JStr ''2.0'' then
            Inr (Jsonify (error_envelope (- 32600) ''Invalid Request'' JNull))
          else
            (case (py_get data ''method'' JNull, py_get data ''params'' (JObj []), py_get data ''id'' JNull) of
               (Inr method, Inr params, Inr request_id) \<Rightarrow>
                 if method = JStr ''initialize'' then
                   Inr (Jsonify (result_envelope advanced_initialize_result request_id))
                 else if method = JStr ''resources/list'' then
                   Inr (Jsonify (result_envelope advanced_resources_list_result request_id))
                 else if method = JStr ''resources/read'' then
                   resources_read L protein_db params request_id
                 else if method = JStr ''tools/list'' then
                   Inr (Jsonify (result_envelope advanced_tools_list_result request_id))
                 else if method = JStr ''tools/call'' then
                   advanced_tools_call L protein_db params request_id
                 else if method = JStr ''prompts/list'' then
                   Inr (Jsonify (result_envelope prompts_list_result request_id))
                 else if method = JStr ''prompts/get'' then
                   prompts_get L protein_db params request_id
                 else if method = JStr ''notifications/initialized'' then
                   (case py_get params ''clientInfo'' (JObj []) of
                      Inl e \<Rightarrow> Inl e
                    | Inr client_info \<Rightarrow> Inr (Jsonify (result_envelope JNull request_id)))
                 else Inr (Jsonify (error_envelope (- 32601) ''Method not found'' request_id))
             | _ \<Rightarrow> Inl AttributeError))"

section \<open>Vocabulary of the properties\<close>

text \<open>The request a client posts for \<^verbatim>\<open>tools/call\<close> (as \<^verbatim>\<open>basic_client.py\<close> builds it).\<close>

definition tools_call_request :: "json \<Rightarrow> string \<Rightarrow> pydict \<Rightarrow> json" where
  "tools_call_request request_id name arguments = JObj
     [(''jsonrpc'', JStr ''2.0''),
      (''id'', request_id),
      (''method'', JStr ''tools/call''),
      (''params'', JObj [(''name'', JStr name), (''arguments'', JObj arguments)])]"

text \<open>The methods each dispatcher has a branch for.\<close>

definition basic_methods :: "string list" where
  "basic_methods =
     [''initialize'', ''resources/list'', ''resources/read'', ''tools/list'', ''tools/call'',
      ''notifications/initialized'']"

definition advanced_methods :: "string list" where
  "advanced_methods =
     [''initialize'', ''resources/list'', ''resources/read'', ''tools/list'', ''tools/call'',
      ''prompts/list'', ''prompts/get'', ''notifications/initialized'']"

text \<open>The id an answer carries, when the answer is an envelope.\<close>

definition response_id :: "response \<Rightarrow> json option" where
  "response_id r = (case r of Jsonify (JObj env) \<Rightarrow> dict_get env ''id'' | _ \<Rightarrow> None)"

definition error_code :: "response \<Rightarrow> json option" where
  "error_code r =
     (case r of
        Jsonify (JObj env) \<Rightarrow>
          (case dict_get env ''error'' of Some (JObj err) \<Rightarrow> dict_get err ''code'' | _ \<Rightarrow> None)
      | _ \<Rightarrow> None)"

text \<open>
  A database whose records all carry a string under \<^verbatim>\<open>name\<close>; the record of a name
  that matches; the entry \<^verbatim>\<open>find_protein\<close> lists for it.
\<close>

definition has_name :: "string \<times> pydict \<Rightarrow> bool" where
  "has_name kv = (case dict_get (snd kv) ''name'' of Some (JStr nm) \<Rightarrow> True | _ \<Rightarrow> False)"

definition db_named :: "protein_db \<Rightarrow> bool" where
  "db_named DB = list_all has_name DB"

text \<open>ASCII strings, and a database whose records all carry an ASCII string name.\<close>

definition is_ascii :: "string \<Rightarrow> bool" where
  "is_ascii s = list_all (\<lambda>c. (of_char c :: nat) < 128) s"

definition has_ascii_name :: "string \<times> pydict \<Rightarrow> bool" where
  "has_ascii_name kv =
     (case dict_get (snd kv) ''name'' of Some (JStr nm) \<Rightarrow> is_ascii nm | _ \<Rightarrow> False)"

definition db_ascii_named :: "protein_db \<Rightarrow> bool" where
  "db_ascii_named DB = list_all has_ascii_name DB"

definition name_matches :: "string \<Rightarrow> string \<times> pydict \<Rightarrow> bool" where
  "name_matches protein_name kv =
     (case dict_get (snd kv) ''name'' of
        Some (JStr nm) \<Rightarrow> py_in protein_name (lower nm)
      | _ \<Rightarrow> False)"

definition match_entry :: "string \<times> pydict \<Rightarrow> json" where
  "match_entry kv =
     JObj [(''id'', JStr (fst kv)), (''name'', dict_get_default (snd kv) ''name'' JNull)]"

text \<open>Lines paired with the index \<^verbatim>\<open>enumerate(lines, start)\<close> gives them.\<close>

definition enumerate_from :: "nat \<Rightarrow> 'a list \<Rightarrow> (nat \<times> 'a) list" where
  "enumerate_from start xs = zip [start ..< start + length xs] xs"

definition is_notification :: "event \<Rightarrow> bool" where
  "is_notification e = (case e of Progress i n m \<Rightarrow> True | Info s \<Rightarrow> True | _ \<Rightarrow> False)"

text \<open>
  Requests and records of the shapes the handlers expect: a record with a string name,
  an organism, a function and, if it has a log, a string log; arguments that are a
  dictionary with a string \<^verbatim>\<open>protein_name\<close> and a hashable \<^verbatim>\<open>protein_id\<close>
  where they are given; parameters that are a dictionary with such arguments.
\<close>

definition is_text :: "json option \<Rightarrow> bool" where
  "is_text v = (case v of Some (JStr s) \<Rightarrow> True | _ \<Rightarrow> False)"

definition hashable :: "json \<Rightarrow> bool" where
  "hashable v = (case v of JList xs \<Rightarrow> False | JObj kvs \<Rightarrow> False | _ \<Rightarrow> True)"

definition wf_record :: "pydict \<Rightarrow> bool" where
  "wf_record data =
     (is_text (dict_get data ''name'') \<and> dict_contains data ''organism''
      \<and> dict_contains data ''function''
      \<and> (dict_get data ''log'' = None \<or> is_text (dict_get data ''log'')))"

definition wf_db :: "protein_db \<Rightarrow> bool" where
  "wf_db DB = list_all (\<lambda>kv. wf_record (snd kv)) DB"

definition wf_arguments :: "json \<Rightarrow> bool" where
  "wf_arguments arguments =
     (case arguments of
        JObj a \<Rightarrow>
          (dict_get a ''protein_name'' = None \<or> is_text (dict_get a ''protein_name''))
          \<and> (case dict_get a ''protein_id'' of None \<Rightarrow> True | Some v \<Rightarrow> hashable v)
      | _ \<Rightarrow> False)"

definition wf_params :: "json \<Rightarrow> bool" where
  "wf_params params =
     (case params of
        JObj p \<Rightarrow> wf_arguments (dict_get_default p ''arguments'' (JObj []))
      | _ \<Rightarrow> False)"

text \<open>
  A stand-in for the library, used where a closed example needs one: a plain printer,
  without Python's escapes and indentation.
\<close>

definition dquote :: string where
  "dquote = [CHR 0x22]"

definition show_int :: "int \<Rightarrow> string" where
  "show_int i = (if i < 0 then ''-'' @ str_nat (nat (- i)) else str_nat (nat i))"

primrec show_json :: "json \<Rightarrow> string" where
  "show_json JNull = ''null''"
| "show_json (JBool b) = (if b then ''true'' else ''false'')"
| "show_json (JInt i) = show_int i"
| "show_json (JFloat q) = show_int (fst (quotient_of q)) @ ''/'' @ show_int (snd (quotient_of q))"
| "show_json (JStr s) = dquote @ s @ dquote"
| "show_json (JList xs) = ''['' @ concat (map (\<lambda>t. t @ '','') (map show_json xs)) @ '']''"
| "show_json (JObj kvs) =
     ''{'' @ concat (map (\<lambda>kv. fst kv @ '':'' @ snd kv @ '','') (map (map_prod id show_json) kvs)) @ ''}''"

definition sample_lib :: pylib where
  "sample_lib = \<lparr> json_dumps = (\<lambda>indent v. show_json v), py_str = show_json \<rparr>"

definition sample_db :: protein_db where
  "sample_db =
     [(''P53_HUMAN'',
        [(''name'', JStr ''Cellular tumor antigen P53''),
         (''organism'', JStr ''Homo sapiens''),
         (''function'', JStr ''Acts as a tumor suppressor''),
         (''log'', JStr ''load\<newline>\<newline>done'')]),
      (''P53_MOUSE'',
        [(''name'', JStr ''Cellular tumor antigen p53''),
         (''organism'', JStr ''Mus musculus''),
         (''function'', JStr ''Acts as a tumor suppressor in mouse'')]),
      (''BRCA1_HUMAN'',
        [(''name'', JStr ''Breast cancer type 1 susceptibility protein''),
         (''organism'', JStr ''Homo sapiens''),
         (''function'', JStr ''Repairs DNA'')])]"

section \<open>Properties of the case mapping and the substring test\<close>



lemma py_in_sublist: "py_in a b = sublist a b"
  by (induction b) (auto simp: sublist_Cons_right)

lemma py_in_lower: "py_in a b \<Longrightarrow> py_in (lower a) (lower b)"
  unfolding py_in_sublist lower_def sublist_def by (metis map_append)

section \<open>Properties of the tools\<close>


text \<open>
  C9. The producer of \<^verbatim>\<open>protein://{protein_id}\<close> has a result for every id, always of
  media type \<^verbatim>\<open>application/json\<close>; for an id that is not in the database the body is
  the serialised object with the single key \<^verbatim>\<open>error\<close>.
\<close>

theorem get_protein_total:
  "(\<exists>body. get_protein L DB protein_id = (body, ''application/json''))
   \<and> (dict_get DB protein_id = None \<longrightarrow>
        get_protein L DB protein_id
          = (json_dumps L None (JObj [(''error'', JStr (''Unknown protein_id: '' @ protein_id))]),
             ''application/json''))"
  by (simp add: get_protein_def Let_def)

theorem get_protein_total_witness:
  "dict_get sample_db ''NOPE'' = None
   \<and> get_protein sample_lib sample_db ''NOPE''
       = (''{error:'' @ dquote @ ''Unknown protein_id: NOPE'' @ dquote @ '',}'', ''application/json'')"
  using get_protein_total [of sample_lib sample_db "''NOPE''"]
  by (simp add: sample_db_def dict_get_def sample_lib_def dquote_def)

text \<open>The tool does return for an id whose record has a name and a function.\<close>

lemma generate_hypothesis_returns:
  assumes "dict_get DB protein_id = Some info"
    and "dict_contains info ''name''" and "dict_contains info ''function''"
  shows "\<exists>out. generate_hypothesis L DB token protein_id pending
           = (Inr out, pending(token \<mapsto> [(''protein_id'', JStr protein_id)]))"
  using assms
  by (auto simp: generate_hypothesis_def Let_def dict_item_def dict_contains_def split: option.splits)

text \<open>Once it has returned, the token can be redeemed exactly once.\<close>

lemma sampling_handshake:
  assumes "generate_hypothesis L DB token protein_id pending = (Inr out, pending1)"
  shows "dict_contains DB protein_id
    \<and> (\<exists>prompt. out = json_dumps L (Some 2) (JObj
          [(''result_type'', JStr ''sampling''), (''prompt'', JStr prompt),
           (''callback_token'', JStr token)]))
    \<and> (\<exists>pending2.
          submit_sampling_result L token llm_result pending1
            = (Inr (json_dumps L (Some 2) (JObj
                 [(''result_type'', JStr ''sampling_complete''),
                  (''protein_id'', JStr protein_id),
                  (''llm_result'', JStr llm_result),
                  (''status'', JStr ''success'')])), pending2)
        \<and> submit_sampling_result L token llm_result' pending2
            = (Inl (ValueError ''Invalid callback token''), pending2))"
  using assms
  by (auto simp: generate_hypothesis_def submit_sampling_result_def Let_def dict_item_def
        dict_get_def dict_contains_def split: option.splits sum.splits)

text \<open>
  C1. \<^verbatim>\<open>generate_hypothesis\<close> returns for an id of the database whose record has a
  name and a function. Whenever it returns (its id is then in the database), the result
  carries the token, the first \<^verbatim>\<open>submit_sampling_result\<close> with that token returns
  the \<^verbatim>\<open>sampling_complete\<close> payload with status \<^verbatim>\<open>success\<close> and the same protein
  id, and a second one with the same token fails with the invalid-token error.
\<close>

theorem sampling_handshake_once:
  "(dict_get DB protein_id = Some info \<and> dict_contains info ''name'' \<and> dict_contains info ''function''
      \<longrightarrow> (\<exists>out. generate_hypothesis L DB token protein_id pending
                   = (Inr out, pending(token \<mapsto> [(''protein_id'', JStr protein_id)]))))
   \<and> (generate_hypothesis L DB token protein_id pending = (Inr out, pending1) \<longrightarrow>
        dict_contains DB protein_id
        \<and> (\<exists>prompt. out = json_dumps L (Some 2) (JObj
              [(''result_type'', JStr ''sampling''), (''prompt'', JStr prompt),
               (''callback_token'', JStr token)]))
        \<and> (\<exists>pending2.
              submit_sampling_result L token llm_result pending1
                = (Inr (json_dumps L (Some 2) (JObj
                     [(''result_type'', JStr ''sampling_complete''),
                      (''protein_id'', JStr protein_id),
                      (''llm_result'', JStr llm_result),
                      (''status'', JStr ''success'')])), pending2)
            \<and> submit_sampling_result L token llm_result' pending2
                = (Inl (ValueError ''Invalid callback token''), pending2)))"
  using generate_hypothesis_returns [of DB protein_id info L token pending]
    sampling_handshake [of L DB token protein_id pending out pending1 llm_result llm_result']
  by blast

theorem sampling_handshake_once_witness:
  "generate_hypothesis sample_lib sample_db ''tok-1'' ''P53_HUMAN'' Map.empty
     = (Inr (json_dumps sample_lib (Some 2) (JObj
          [(''result_type'', JStr ''sampling''),
           (''prompt'', JStr ''The protein Cellular tumor antigen P53 is known to Acts as a tumor suppressor. Generate a novel research hypothesis.''),
           (''callback_token'', JStr ''tok-1'')])),
        [''tok-1'' \<mapsto> [(''protein_id'', JStr ''P53_HUMAN'')]])
   \<and> submit_sampling_result sample_lib ''tok-1'' ''idea'' [''tok-1'' \<mapsto> [(''protein_id'', JStr ''P53_HUMAN'')]]
     = (Inr (json_dumps sample_lib (Some 2) (JObj
          [(''result_type'', JStr ''sampling_complete''), (''protein_id'', JStr ''P53_HUMAN''),
           (''llm_result'', JStr ''idea''), (''status'', JStr ''success'')])), Map.empty)
   \<and> submit_sampling_result sample_lib ''tok-1'' ''idea'' Map.empty
     = (Inl (ValueError ''Invalid callback token''), Map.empty)"
proof -
  have g: "generate_hypothesis sample_lib sample_db ''tok-1'' ''P53_HUMAN'' Map.empty
     = (Inr (json_dumps sample_lib (Some 2) (JObj
          [(''result_type'', JStr ''sampling''),
           (''prompt'', JStr ''The protein Cellular tumor antigen P53 is known to Acts as a tumor suppressor. Generate a novel research hypothesis.''),
           (''callback_token'', JStr ''tok-1'')])),
        [''tok-1'' \<mapsto> [(''protein_id'', JStr ''P53_HUMAN'')]])"
    by (simp add: generate_hypothesis_def sample_db_def dict_get_def dict_item_def
          py_format_def Let_def)
  from sampling_handshake_once [where L = sample_lib and DB = sample_db and token = "''tok-1''"
      and protein_id = "''P53_HUMAN''" and pending = Map.empty and llm_result = "''idea''"
      and llm_result' = "''idea''"] g
  show ?thesis
    by (auto simp: submit_sampling_result_def dict_item_def)
qed

text \<open>On a database whose records all carry a string name the search loop is a filter.\<close>

lemma find_matches_named:
  "db_named DB \<Longrightarrow> find_matches pn DB = Inr (map match_entry (filter (name_matches pn) DB))"
proof (induction DB)
  case Nil
  then show ?case by simp
next
  case (Cons kv DB)
  obtain pid data where kv: "kv = (pid, data)" by (cases kv)
  from Cons.prems obtain nm where nm: "map_of data ''name'' = Some (JStr nm)" and rest: "db_named DB"
    by (auto simp: db_named_def has_name_def kv dict_get_def split: option.splits json.splits)
  show ?case
    using Cons.IH [OF rest] nm
    by (simp add: kv dict_get_default_def dict_item_def name_matches_def match_entry_def dict_get_def)
qed

lemma db_ascii_named_named: "db_ascii_named DB \<Longrightarrow> db_named DB"
  by (induction DB)
     (auto simp: db_ascii_named_def db_named_def has_ascii_name_def has_name_def
        split: option.splits json.splits)

lemma name_matches_literal:
  "dict_get data ''name'' = Some (JStr nm) \<Longrightarrow> py_in s nm \<Longrightarrow> name_matches (lower s) (pid, data)"
  by (simp add: name_matches_def py_in_lower)

text \<open>
  C5, as the code has it. For an ASCII argument and a database whose records all carry
  an ASCII string name, the three cases of \<^verbatim>\<open>find_protein\<close> are told apart on the
  lowercased argument: if it is \<^verbatim>\<open>p53\<close> the result is the elicitation payload with
  exactly two choices (whatever the database holds); otherwise, if it occurs in the
  lowercased form of at least one stored name (in particular when the argument itself
  occurs in a stored name), the result is \<^verbatim>\<open>matches\<close> with one entry per such name,
  at least one; otherwise the result is the payload with \<^verbatim>\<open>result_type\<close>
  \<^verbatim>\<open>error\<close>. Outside ASCII the case mapping of the model is not Python's, and
  nothing is stated.
\<close>

theorem find_protein_three_way:
  assumes "db_ascii_named DB" and "is_ascii s"
  shows "(lower s = ''p53'' \<longrightarrow>
            find_protein L DB s = Inr (json_dumps L (Some 2) (JObj
              [(''result_type'', JStr ''elicitation''),
               (''message'', JStr (''Multiple proteins match '' @ squote @ ''p53'' @ squote @ ''. Please specify:'')),
               (''choices'', JList
                  [JObj [(''label'', JStr ''Human p53''), (''value'', JStr ''P53_HUMAN'')],
                   JObj [(''label'', JStr ''Mouse p53''), (''value'', JStr ''P53_MOUSE'')]])])))
       \<and> (lower s \<noteq> ''p53'' \<and> filter (name_matches (lower s)) DB \<noteq> [] \<longrightarrow>
            find_protein L DB s = Inr (json_dumps L (Some 2) (JObj
              [(''result_type'', JStr ''matches''),
               (''matches'', JList (map match_entry (filter (name_matches (lower s)) DB)))]))
            \<and> 1 \<le> length (map match_entry (filter (name_matches (lower s)) DB)))
       \<and> (lower s \<noteq> ''p53'' \<and> (pid, data) \<in> set DB \<and> dict_get data ''name'' = Some (JStr nm)
            \<and> py_in s nm \<longrightarrow> filter (name_matches (lower s)) DB \<noteq> [])
       \<and> (lower s \<noteq> ''p53'' \<and> filter (name_matches (lower s)) DB = [] \<longrightarrow>
            find_protein L DB s = Inr (json_dumps L (Some 2) (JObj
              [(''result_type'', JStr ''error''),
               (''message'', JStr (''No proteins found matching '' @ squote @ lower s @ squote))])))"
proof -
  have m: "find_matches (lower s) DB = Inr (map match_entry (filter (name_matches (lower s)) DB))"
    by (rule find_matches_named [OF db_ascii_named_named [OF assms(1)]])
  have lit: "lower s \<noteq> ''p53'' \<and> (pid, data) \<in> set DB \<and> dict_get data ''name'' = Some (JStr nm)
            \<and> py_in s nm \<longrightarrow> filter (name_matches (lower s)) DB \<noteq> []"
    using name_matches_literal [of data nm s pid] by (auto simp: filter_empty_conv)
  show ?thesis
    using lit by (simp add: find_protein_def Let_def m elicitation_payload_def Suc_le_eq)
qed

theorem find_protein_three_way_witness:
  "db_ascii_named sample_db \<and> is_ascii ''p53'' \<and> is_ascii ''Cancer'' \<and> is_ascii ''kinase''
   \<and> find_protein sample_lib sample_db ''p53'' = Inr (json_dumps sample_lib (Some 2) elicitation_payload)
   \<and> find_protein sample_lib sample_db ''Cancer'' = Inr (json_dumps sample_lib (Some 2) (JObj
        [(''result_type'', JStr ''matches''),
         (''matches'', JList [JObj [(''id'', JStr ''BRCA1_HUMAN''),
            (''name'', JStr ''Breast cancer type 1 susceptibility protein'')]])]))
   \<and> find_protein sample_lib sample_db ''kinase'' = Inr (json_dumps sample_lib (Some 2) (JObj
        [(''result_type'', JStr ''error''),
         (''message'', JStr (''No proteins found matching '' @ squote @ ''kinase'' @ squote))]))"
proof -
  have n: "db_ascii_named sample_db" by code_simp
  have a1: "is_ascii ''p53''" and a2: "is_ascii ''Cancer''" and a3: "is_ascii ''kinase''"
    by code_simp+
  have l1: "lower ''p53'' = ''p53''" and l2: "lower ''Cancer'' = ''cancer''" and l3: "lower ''kinase'' = ''kinase''"
    by code_simp+
  have f2: "filter (name_matches ''cancer'') sample_db = [(''BRCA1_HUMAN'',
        [(''name'', JStr ''Breast cancer type 1 susceptibility protein''),
         (''organism'', JStr ''Homo sapiens''),
         (''function'', JStr ''Repairs DNA'')])]" by code_simp
  have f3: "filter (name_matches ''kinase'') sample_db = []" by code_simp
  show ?thesis
    using find_protein_three_way [OF n a1, of sample_lib]
      find_protein_three_way [OF n a2, of sample_lib]
      find_protein_three_way [OF n a3, of sample_lib]
    by (simp add: n a1 a2 a3 l1 l2 l3 f2 f3 elicitation_payload_def match_entry_def
          dict_get_default_def)
qed

text \<open>
  The claim as worded fails at the ASCII argument \<^verbatim>\<open>P53\<close>: it is not \<^verbatim>\<open>p53\<close> and
  it occurs in a stored name, yet the result is the elicitation payload, not
  \<^verbatim>\<open>matches\<close>.
\<close>

theorem find_protein_uppercase_counterexample:
  "''P53'' \<noteq> ''p53'' \<and> py_in ''P53'' ''Cellular tumor antigen P53''
   \<and> is_ascii ''P53'' \<and> db_ascii_named sample_db
   \<and> dict_get sample_db ''P53_HUMAN'' = Some
        [(''name'', JStr ''Cellular tumor antigen P53''),
         (''organism'', JStr ''Homo sapiens''),
         (''function'', JStr ''Acts as a tumor suppressor''),
         (''log'', JStr ''load\<newline>\<newline>done'')]
   \<and> find_protein sample_lib sample_db ''P53'' = Inr (json_dumps sample_lib (Some 2) elicitation_payload)
   \<and> find_protein sample_lib sample_db ''P53'' \<noteq> Inr (json_dumps sample_lib (Some 2) (JObj
        [(''result_type'', JStr ''matches''),
         (''matches'', JList
            [JObj [(''id'', JStr ''P53_HUMAN''), (''name'', JStr ''Cellular tumor antigen P53'')],
             JObj [(''id'', JStr ''P53_MOUSE''), (''name'', JStr ''Cellular tumor antigen p53'')]])]))"
  by code_simp

text \<open>
  C7, as the code has it. With \<^verbatim>\<open>P53_HUMAN\<close> in the database and a function string
  in its record, the SDK tool returns that string itself, and the hand-written basic
  server a text content holding it, in a result with no \<^verbatim>\<open>result_type\<close>. With an
  id that is not in the database the SDK tool raises \<^verbatim>\<open>ValueError\<close> with a message
  naming the id (the tool has no error code), and the basic server answers with error
  code -32602.
\<close>

theorem get_protein_function_scenario:
  "(dict_get DB ''P53_HUMAN'' = Some rec \<and> dict_get rec ''function'' = Some (JStr f) \<longrightarrow>
      get_protein_function DB ''P53_HUMAN'' = Inr (JStr f)
      \<and> handle_mcp_basic L DB
           (tools_call_request request_id ''get_protein_function'' [(''protein_id'', JStr ''P53_HUMAN'')])
          = Inr (Jsonify (JObj
              [(''jsonrpc'', JStr ''2.0''),
               (''result'', JObj [(''content'', JList [JObj
                  [(''type'', JStr ''text''), (''text'', JStr (''Function of P53_HUMAN: '' @ f))]])]),
               (''id'', request_id)])))
   \<and> (dict_get DB protein_id = None \<longrightarrow>
      get_protein_function DB protein_id = Inl (ValueError (''Unknown protein_id: '' @ protein_id))
      \<and> handle_mcp_basic L DB
           (tools_call_request request_id ''get_protein_function'' [(''protein_id'', JStr protein_id)])
          = Inr (Jsonify (JObj
              [(''jsonrpc'', JStr ''2.0''),
               (''error'', JObj [(''code'', JInt (- 32602)),
                                 (''message'', JStr (''Protein '' @ protein_id @ '' not found''))]),
               (''id'', request_id)])))"
  by (auto simp: get_protein_function_def handle_mcp_basic_def basic_tools_call_def
        tools_call_request_def py_get_def dict_get_default_def dict_get_def dict_item_def
        key_in_db_def dict_contains_def py_format_def result_envelope_def error_envelope_def
        text_content_def Let_def)

theorem get_protein_function_scenario_witness:
  "get_protein_function sample_db ''P53_HUMAN'' = Inr (JStr ''Acts as a tumor suppressor'')
   \<and> get_protein_function sample_db ''NOPE'' = Inl (ValueError ''Unknown protein_id: NOPE'')
   \<and> error_code (projr (handle_mcp_basic sample_lib sample_db
         (tools_call_request (JInt 1) ''get_protein_function'' [(''protein_id'', JStr ''NOPE'')])))
       = Some (JInt (- 32602))"
proof -
  have a: "dict_get sample_db ''P53_HUMAN'' = Some
        [(''name'', JStr ''Cellular tumor antigen P53''),
         (''organism'', JStr ''Homo sapiens''),
         (''function'', JStr ''Acts as a tumor suppressor''),
         (''log'', JStr ''load\<newline>\<newline>done'')]" by code_simp
  have b: "dict_get  [(''name'', JStr ''Cellular tumor antigen P53''),
         (''organism'', JStr ''Homo sapiens''),
         (''function'', JStr ''Acts as a tumor suppressor''),
         (''log'', JStr ''load\<newline>\<newline>done'')] ''function'' = Some (JStr ''Acts as a tumor suppressor'')"
    by code_simp
  have c: "dict_get sample_db ''NOPE'' = None" by code_simp
  show ?thesis
    using get_protein_function_scenario [where DB = sample_db and f = "''Acts as a tumor suppressor''"
        and L = sample_lib and request_id = "JInt 1" and protein_id = "''NOPE''"
        and rec = "[(''name'', JStr ''Cellular tumor antigen P53''),
         (''organism'', JStr ''Homo sapiens''),
         (''function'', JStr ''Acts as a tumor suppressor''),
         (''log'', JStr ''load\<newline>\<newline>done'')]"] a b c
    by (simp add: error_code_def dict_get_def)
qed

text \<open>
  The claim as worded fails on a database that contains \<^verbatim>\<open>P53_HUMAN\<close> with an empty
  record, or with a record without a function: the SDK tool raises, and so does the basic
  server for the latter. For an unknown id the outcome of the SDK tool is the
  \<^verbatim>\<open>ValueError\<close> with its message, which holds no code.
\<close>

theorem get_protein_function_record_counterexample:
  "dict_contains [(''P53_HUMAN'', [])] ''P53_HUMAN''
   \<and> get_protein_function [(''P53_HUMAN'', [])] ''P53_HUMAN''
       = Inl (ValueError ''Unknown protein_id: P53_HUMAN'')
   \<and> dict_contains [(''P53_HUMAN'', [(''name'', JStr ''Cellular tumor antigen P53'')])] ''P53_HUMAN''
   \<and> get_protein_function [(''P53_HUMAN'', [(''name'', JStr ''Cellular tumor antigen P53'')])] ''P53_HUMAN''
       = Inl (KeyError ''function'')
   \<and> handle_mcp_basic sample_lib [(''P53_HUMAN'', [(''name'', JStr ''Cellular tumor antigen P53'')])]
         (tools_call_request (JInt 1) ''get_protein_function'' [(''protein_id'', JStr ''P53_HUMAN'')])
       = Inl (KeyError ''function'')
   \<and> get_protein_function sample_db ''NOPE'' = Inl (ValueError ''Unknown protein_id: NOPE'')"
  by code_simp

text \<open>
  C8. \<^verbatim>\<open>submit_sampling_result\<close> touches the ledger at the submitted token only: a
  token that is present is removed and every other entry stays as it was; a token that
  is absent makes the call fail with the invalid-token error and leaves the ledger
  unchanged.
\<close>

theorem submit_sampling_result_frame:
  "(pending_callbacks callback_token = None \<longrightarrow>
      submit_sampling_result L callback_token llm_result pending_callbacks
        = (Inl (ValueError ''Invalid callback token''), pending_callbacks))
   \<and> (pending_callbacks callback_token \<noteq> None \<longrightarrow>
        snd (submit_sampling_result L callback_token llm_result pending_callbacks)
          = pending_callbacks(callback_token := None)
        \<and> snd (submit_sampling_result L callback_token llm_result pending_callbacks) callback_token = None
        \<and> (\<forall>t. t \<noteq> callback_token \<longrightarrow>
              snd (submit_sampling_result L callback_token llm_result pending_callbacks) t
                = pending_callbacks t))"
  by (auto simp: submit_sampling_result_def Let_def split: option.splits sum.splits)

theorem submit_sampling_result_frame_witness:
  "submit_sampling_result sample_lib ''t9'' ''text'' [''t1'' \<mapsto> [(''protein_id'', JStr ''P53_HUMAN'')]]
     = (Inl (ValueError ''Invalid callback token''), [''t1'' \<mapsto> [(''protein_id'', JStr ''P53_HUMAN'')]])
   \<and> snd (submit_sampling_result sample_lib ''t1'' ''text''
        [''t1'' \<mapsto> [(''protein_id'', JStr ''P53_HUMAN'')], ''t2'' \<mapsto> [(''protein_id'', JStr ''P53_MOUSE'')]])
     = [''t2'' \<mapsto> [(''protein_id'', JStr ''P53_MOUSE'')]]"
  using submit_sampling_result_frame [of "[''t1'' \<mapsto> [(''protein_id'', JStr ''P53_HUMAN'')]]" "''t9''" sample_lib "''text''"]
    submit_sampling_result_frame [of "[''t1'' \<mapsto> [(''protein_id'', JStr ''P53_HUMAN'')], ''t2'' \<mapsto> [(''protein_id'', JStr ''P53_MOUSE'')]]" "''t1''" sample_lib "''text''"]
  by (auto simp: fun_upd_twist)

section \<open>Properties of the dispatchers\<close>

text \<open>
  C6. A request with \<^verbatim>\<open>jsonrpc\<close> \<^verbatim>\<open>2.0\<close> whose method is none of those the server
  has a branch for is answered with error code -32601 and the request's id, in the
  advanced and in the basic server.
\<close>

theorem unknown_method_not_found:
  assumes "dict_get_default d ''jsonrpc'' JNull = JStr ''2.0''"
  shows "(dict_get_default d ''method'' JNull \<notin> JStr ` set advanced_methods \<longrightarrow>
            handle_mcp_advanced L DB (JObj d)
              = Inr (Jsonify (JObj
                  [(''jsonrpc'', JStr ''2.0''),
                   (''error'', JObj [(''code'', JInt (- 32601)), (''message'', JStr ''Method not found'')]),
                   (''id'', dict_get_default d ''id'' JNull)])))
       \<and> (dict_get_default d ''method'' JNull \<notin> JStr ` set basic_methods \<longrightarrow>
            handle_mcp_basic L DB (JObj d)
              = Inr (Jsonify (JObj
                  [(''jsonrpc'', JStr ''2.0''),
                   (''error'', JObj [(''code'', JInt (- 32601)), (''message'', JStr ''Method not found'')]),
                   (''id'', dict_get_default d ''id'' JNull)])))"
  using assms
  by (simp add: handle_mcp_advanced_def handle_mcp_basic_def py_get_def advanced_methods_def
        basic_methods_def error_envelope_def image_iff)

theorem unknown_method_not_found_witness:
  "handle_mcp_advanced sample_lib sample_db
     (JObj [(''jsonrpc'', JStr ''2.0''), (''id'', JInt 5), (''method'', JStr ''tools/destroy'')])
     = Inr (Jsonify (JObj
         [(''jsonrpc'', JStr ''2.0''),
          (''error'', JObj [(''code'', JInt (- 32601)), (''message'', JStr ''Method not found'')]),
          (''id'', JInt 5)]))
   \<and> handle_mcp_basic sample_lib sample_db
     (JObj [(''jsonrpc'', JStr ''2.0''), (''id'', JInt 5), (''method'', JStr ''prompts/list'')])
     = Inr (Jsonify (JObj
         [(''jsonrpc'', JStr ''2.0''),
          (''error'', JObj [(''code'', JInt (- 32601)), (''message'', JStr ''Method not found'')]),
          (''id'', JInt 5)]))"
  using unknown_method_not_found [of "[(''jsonrpc'', JStr ''2.0''), (''id'', JInt 5), (''method'', JStr ''tools/destroy'')]" sample_lib sample_db]
    unknown_method_not_found [of "[(''jsonrpc'', JStr ''2.0''), (''id'', JInt 5), (''method'', JStr ''prompts/list'')]" sample_lib sample_db]
  by (simp add: dict_get_default_def advanced_methods_def basic_methods_def image_iff)

text \<open>
  C3, as the code has it. A request whose \<^verbatim>\<open>jsonrpc\<close> is not \<^verbatim>\<open>2.0\<close> is answered
  with error code -32600 and id null, whatever id it carried; a request with the right
  version and a missing or empty method is answered with error code -32601 and the
  request's id.
\<close>

theorem invalid_request_answer:
  "(dict_get_default d ''jsonrpc'' JNull \<noteq> JStr ''2.0'' \<longrightarrow>
      handle_mcp_advanced L DB (JObj d)
        = Inr (Jsonify (JObj
            [(''jsonrpc'', JStr ''2.0''),
             (''error'', JObj [(''code'', JInt (- 32600)), (''message'', JStr ''Invalid Request'')]),
             (''id'', JNull)])))
   \<and> (dict_get_default d ''jsonrpc'' JNull = JStr ''2.0''
        \<and> (dict_get d ''method'' = None \<or> dict_get d ''method'' = Some (JStr [])) \<longrightarrow>
      handle_mcp_advanced L DB (JObj d)
        = Inr (Jsonify (JObj
            [(''jsonrpc'', JStr ''2.0''),
             (''error'', JObj [(''code'', JInt (- 32601)), (''message'', JStr ''Method not found'')]),
             (''id'', dict_get_default d ''id'' JNull)])))"
  by (auto simp: handle_mcp_advanced_def py_get_def error_envelope_def dict_get_default_def dict_get_def)

theorem invalid_request_answer_witness:
  "handle_mcp_advanced sample_lib sample_db
     (JObj [(''jsonrpc'', JStr ''1.0''), (''id'', JInt 7), (''method'', JStr ''initialize'')])
     = Inr (Jsonify (JObj
            [(''jsonrpc'', JStr ''2.0''),
             (''error'', JObj [(''code'', JInt (- 32600)), (''message'', JStr ''Invalid Request'')]),
             (''id'', JNull)]))
   \<and> handle_mcp_advanced sample_lib sample_db
     (JObj [(''jsonrpc'', JStr ''2.0''), (''id'', JInt 7), (''method'', JStr [])])
     = Inr (Jsonify (JObj
            [(''jsonrpc'', JStr ''2.0''),
             (''error'', JObj [(''code'', JInt (- 32601)), (''message'', JStr ''Method not found'')]),
             (''id'', JInt 7)]))"
  using invalid_request_answer [of "[(''jsonrpc'', JStr ''1.0''), (''id'', JInt 7), (''method'', JStr ''initialize'')]" sample_lib sample_db]
    invalid_request_answer [of "[(''jsonrpc'', JStr ''2.0''), (''id'', JInt 7), (''method'', JStr [])]" sample_lib sample_db]
  by (simp add: dict_get_default_def dict_get_def)

text \<open>
  The claim as worded fails on a request of version \<^verbatim>\<open>1.0\<close> with id 7, whose answer
  has id null, and on a request with an empty method, whose answer has code -32601.
\<close>

theorem invalid_request_id_counterexample:
  "response_id (projr (handle_mcp_advanced sample_lib sample_db
     (JObj [(''jsonrpc'', JStr ''1.0''), (''id'', JInt 7), (''method'', JStr ''initialize'')])))
     = Some JNull
   \<and> JNull \<noteq> JInt 7
   \<and> error_code (projr (handle_mcp_advanced sample_lib sample_db
     (JObj [(''jsonrpc'', JStr ''2.0''), (''id'', JInt 7), (''method'', JStr [])])))
     = Some (JInt (- 32601))
   \<and> JInt (- 32601) \<noteq> JInt (- 32600)"
  by code_simp

text \<open>Each branch of the advanced dispatcher that answers with an envelope echoes the id.\<close>

lemma response_id_result [simp]: "response_id (Jsonify (result_envelope res rid)) = Some rid"
  by (simp add: response_id_def result_envelope_def dict_get_def)

lemma response_id_error [simp]: "response_id (Jsonify (error_envelope code msg rid)) = Some rid"
  by (simp add: response_id_def error_envelope_def dict_get_def)

lemma resources_read_id:
  "resources_read L DB params rid = Inr r \<Longrightarrow> response_id r = Some rid"
  by (auto simp: resources_read_def split: sum.splits if_splits)

lemma tool_find_protein_id:
  "tool_find_protein L DB arguments rid = Inr r \<Longrightarrow> response_id r = Some rid"
  by (auto simp: tool_find_protein_def Let_def split: sum.splits json.splits if_splits)

lemma tool_get_protein_hypothesis_id:
  "tool_get_protein_hypothesis L DB arguments rid = Inr r \<Longrightarrow> response_id r = Some rid"
  by (auto simp: tool_get_protein_hypothesis_def Let_def split: sum.splits bool.splits)

lemma prompts_get_id:
  "prompts_get L DB params rid = Inr r \<Longrightarrow> response_id r = Some rid"
  by (auto simp: prompts_get_def Let_def split: sum.splits bool.splits if_splits)

lemma tool_analyze_protein_stream_id:
  "tool_analyze_protein_stream L DB arguments rid = Inr r \<Longrightarrow>
     response_id r = Some rid
     \<or> (\<exists>a pid. arguments = JObj a \<and> dict_get a ''protein_id'' = Some (JStr pid)
           \<and> dict_contains DB pid \<and> r = StreamResponse (generate_stream L DB pid))"
  by (auto simp: tool_analyze_protein_stream_def py_get_def key_in_db_def dict_get_default_def
        dict_get_def py_format_def split: sum.splits bool.splits json.splits option.splits)

lemma advanced_tools_call_id:
  "advanced_tools_call L DB params rid = Inr r \<Longrightarrow>
     response_id r = Some rid
     \<or> (\<exists>p a pid. params = JObj p \<and> dict_get p ''name'' = Some (JStr ''analyze_protein_stream'')
           \<and> dict_get_default p ''arguments'' (JObj []) = JObj a
           \<and> dict_get a ''protein_id'' = Some (JStr pid)
           \<and> dict_contains DB pid \<and> r = StreamResponse (generate_stream L DB pid))"
  unfolding advanced_tools_call_def
  by (auto simp: py_get_def dict_get_default_def dict_get_def
        split: sum.splits json.splits if_splits option.splits
        dest: tool_find_protein_id tool_get_protein_hypothesis_id
        dest!: tool_analyze_protein_stream_id)

text \<open>On such requests and records no handler of the advanced dispatcher raises.\<close>

lemma wf_db_lookup:
  "wf_db DB \<Longrightarrow> map_of DB pid = Some data \<Longrightarrow> wf_record data"
  by (induction DB) (auto simp: wf_db_def split: if_splits)

lemma find_matches_text_returns:
  "wf_db DB \<Longrightarrow> \<exists>ms. find_matches_text L pn DB = Inr ms"
proof (induction DB)
  case Nil
  then show ?case by simp
next
  case (Cons kv DB)
  obtain pid data where kv: "kv = (pid, data)" by (cases kv)
  from Cons.prems have wr: "wf_record data" and rest: "wf_db DB"
    by (auto simp: wf_db_def kv)
  from Cons.IH [OF rest] obtain ms where ms: "find_matches_text L pn DB = Inr ms" by blast
  from wr obtain nm org where "map_of data ''name'' = Some (JStr nm)" "map_of data ''organism'' = Some org"
    by (auto simp: wf_record_def is_text_def dict_get_def dict_contains_def split: option.splits json.splits)
  then show ?case
    by (simp add: kv dict_item_def ms)
qed

lemma tool_find_protein_returns:
  assumes "wf_db DB" and "wf_arguments arguments"
  shows "\<exists>r. tool_find_protein L DB arguments rid = Inr r"
proof -
  from assms(2) obtain a where a: "arguments = JObj a"
    by (cases arguments) (auto simp: wf_arguments_def)
  from assms(2) a obtain s where s: "py_get arguments ''protein_name'' (JStr []) = Inr (JStr s)"
    by (auto simp: wf_arguments_def py_get_def dict_get_default_def is_text_def dict_get_def
          split: option.splits json.splits)
  from find_matches_text_returns [OF assms(1)] obtain ms
    where ms: "find_matches_text L (lower s) DB = Inr ms" by blast
  show ?thesis
    by (simp add: tool_find_protein_def s ms Let_def)
qed

lemma key_in_db_returns:
  "hashable v \<Longrightarrow> \<exists>b. key_in_db v DB = Inr b"
  by (cases v) (auto simp: hashable_def key_in_db_def)

lemma key_in_db_True:
  "key_in_db v DB = Inr True \<Longrightarrow> \<exists>s data. v = JStr s \<and> map_of DB s = Some data"
  by (cases v) (auto simp: key_in_db_def dict_contains_def)

lemma protein_id_hashable:
  "wf_arguments arguments \<Longrightarrow>
     \<exists>v. py_get arguments ''protein_id'' JNull = Inr v \<and> hashable v"
  by (cases arguments)
     (auto simp: wf_arguments_def py_get_def dict_get_default_def dict_get_def hashable_def
        split: option.splits)

lemma generate_stream_returns:
  assumes "wf_db DB" and "map_of DB s = Some data"
  shows "\<exists>chunks. generate_stream L DB s = Inr chunks"
proof -
  from wf_db_lookup [OF assms] have "dict_get data ''log'' = None \<or> is_text (dict_get data ''log'')"
    by (simp add: wf_record_def)
  then obtain t where "dict_get_default data ''log'' (JStr []) = JStr t"
    by (auto simp: dict_get_default_def dict_get_def is_text_def split: option.splits json.splits)
  with assms(2) show ?thesis
    by (simp add: generate_stream_def dict_item_def Let_def)
qed

lemma tool_analyze_protein_stream_returns:
  assumes "wf_arguments arguments"
  shows "\<exists>r. tool_analyze_protein_stream L DB arguments rid = Inr r"
proof -
  from protein_id_hashable [OF assms] obtain v
    where v: "py_get arguments ''protein_id'' JNull = Inr v" "hashable v" by blast
  from key_in_db_returns [OF v(2)] obtain b where "key_in_db v DB = Inr b" by blast
  with v show ?thesis
    by (cases b) (simp_all add: tool_analyze_protein_stream_def)
qed

lemma record_fields:
  assumes "wf_db DB" and "map_of DB s = Some data"
  shows "\<exists>nm org fn. dict_item data ''name'' = Inr nm \<and> dict_item data ''organism'' = Inr org
           \<and> dict_item data ''function'' = Inr fn"
  using wf_db_lookup [OF assms]
  by (auto simp: wf_record_def is_text_def dict_get_def dict_contains_def dict_item_def
        split: option.splits)

lemma tool_get_protein_hypothesis_returns:
  assumes "wf_db DB" and "wf_arguments arguments"
  shows "\<exists>r. tool_get_protein_hypothesis L DB arguments rid = Inr r"
proof -
  from protein_id_hashable [OF assms(2)] obtain v
    where v: "py_get arguments ''protein_id'' JNull = Inr v" "hashable v" by blast
  from key_in_db_returns [OF v(2)] obtain b where b: "key_in_db v DB = Inr b" by blast
  show ?thesis
  proof (cases b)
    case True
    with b have "key_in_db v DB = Inr True" by simp
    from key_in_db_True [OF this] obtain s data where s: "v = JStr s" "map_of DB s = Some data"
      by blast
    from record_fields [OF assms(1) s(2)] obtain nm org fn
      where "dict_item data ''name'' = Inr nm" "dict_item data ''organism'' = Inr org"
        "dict_item data ''function'' = Inr fn" by blast
    with v b True s show ?thesis
      by (simp add: tool_get_protein_hypothesis_def Let_def py_format_def dict_get_default_def)
  next
    case False
    with v b show ?thesis by (simp add: tool_get_protein_hypothesis_def)
  qed
qed

lemma prompts_get_returns:
  assumes "wf_db DB" and "wf_params params"
  shows "\<exists>r. prompts_get L DB params rid = Inr r"
proof -
  from assms(2) obtain p where p: "params = JObj p"
    by (cases params) (auto simp: wf_params_def)
  let ?args = "dict_get_default p ''arguments'' (JObj [])"
  from assms(2) p have wa: "wf_arguments ?args" by (simp add: wf_params_def)
  from protein_id_hashable [OF wa] obtain v
    where v: "py_get ?args ''protein_id'' JNull = Inr v" "hashable v" by blast
  from key_in_db_returns [OF v(2)] obtain b where b: "key_in_db v DB = Inr b" by blast
  show ?thesis
  proof (cases "b \<and> dict_get_default p ''name'' JNull = JStr ''protein_analysis''")
    case True
    with b have "key_in_db v DB = Inr True" by simp
    from key_in_db_True [OF this] obtain s data where s: "v = JStr s" "map_of DB s = Some data"
      by blast
    from record_fields [OF assms(1) s(2)] obtain nm org fn
      where "dict_item data ''name'' = Inr nm" "dict_item data ''organism'' = Inr org"
        "dict_item data ''function'' = Inr fn" by blast
    with v b True s p show ?thesis
      by (simp add: prompts_get_def py_get_def Let_def py_format_def dict_get_default_def)
  next
    case False
    with v b p show ?thesis
      by (cases b) (auto simp: prompts_get_def py_get_def)
  qed
qed

lemma advanced_tools_call_returns:
  assumes "wf_db DB" and "wf_params params"
  shows "\<exists>r. advanced_tools_call L DB params rid = Inr r"
proof -
  from assms(2) obtain p where p: "params = JObj p"
    by (cases params) (auto simp: wf_params_def)
  let ?args = "dict_get_default p ''arguments'' (JObj [])"
  from assms(2) p have wa: "wf_arguments ?args" by (simp add: wf_params_def)
  show ?thesis
    using tool_find_protein_returns [OF assms(1) wa, of L rid]
      tool_analyze_protein_stream_returns [OF wa, of L DB rid]
      tool_get_protein_hypothesis_returns [OF assms(1) wa, of L rid]
    by (simp add: advanced_tools_call_def p py_get_def)
qed

lemma handle_mcp_advanced_returns:
  assumes "wf_db DB" and "wf_params (dict_get_default d ''params'' (JObj []))"
  shows "\<exists>r. handle_mcp_advanced L DB (JObj d) = Inr r"
proof -
  let ?params = "dict_get_default d ''params'' (JObj [])"
  let ?rid = "dict_get_default d ''id'' JNull"
  from assms(2) obtain p where p: "?params = JObj p"
    by (cases ?params) (auto simp: wf_params_def)
  have rr: "\<exists>r. resources_read L DB ?params ?rid = Inr r"
    by (simp add: resources_read_def p py_get_def)
  show ?thesis
    using rr advanced_tools_call_returns [OF assms, of L ?rid] prompts_get_returns [OF assms, of L ?rid]
    by (auto simp: handle_mcp_advanced_def py_get_def p)
qed

lemma handle_mcp_advanced_id:
  assumes "dict_get_default d ''jsonrpc'' JNull = JStr ''2.0''"
    and "handle_mcp_advanced L DB (JObj d) = Inr r"
  shows "response_id r = Some (dict_get_default d ''id'' JNull)
     \<or> (\<exists>p a pid. dict_get d ''method'' = Some (JStr ''tools/call'')
           \<and> dict_get d ''params'' = Some (JObj p)
           \<and> dict_get p ''name'' = Some (JStr ''analyze_protein_stream'')
           \<and> dict_get_default p ''arguments'' (JObj []) = JObj a
           \<and> dict_get a ''protein_id'' = Some (JStr pid)
           \<and> dict_contains DB pid \<and> r = StreamResponse (generate_stream L DB pid))"
proof -
  let ?rid = "dict_get_default d ''id'' JNull"
  let ?params = "dict_get_default d ''params'' (JObj [])"
  let ?meth = "dict_get_default d ''method'' JNull"
  consider (tc) "?meth = JStr ''tools/call''" | (other) "?meth \<noteq> JStr ''tools/call''" by blast
  then show ?thesis
  proof cases
    case tc
    with assms have "advanced_tools_call L DB ?params ?rid = Inr r"
      by (simp add: handle_mcp_advanced_def py_get_def)
    from advanced_tools_call_id [OF this]
    consider (echo) "response_id r = Some ?rid"
      | (stream) p a pid where "?params = JObj p"
          "dict_get p ''name'' = Some (JStr ''analyze_protein_stream'')"
          "dict_get_default p ''arguments'' (JObj []) = JObj a"
          "dict_get a ''protein_id'' = Some (JStr pid)"
          "dict_contains DB pid" "r = StreamResponse (generate_stream L DB pid)"
      by blast
    then show ?thesis
    proof cases
      case echo
      then show ?thesis by simp
    next
      case stream
      from stream(1,2) have "dict_get d ''params'' = Some (JObj p)"
        by (cases "map_of d ''params''") (auto simp: dict_get_default_def dict_get_def)
      moreover from tc have "dict_get d ''method'' = Some (JStr ''tools/call'')"
        by (cases "map_of d ''method''") (auto simp: dict_get_default_def dict_get_def)
      ultimately show ?thesis using stream by blast
    qed
  next
    case other
    with assms have "response_id r = Some ?rid"
      by (auto simp: handle_mcp_advanced_def py_get_def
            split: if_splits sum.splits dest: resources_read_id prompts_get_id)
    then show ?thesis by simp
  qed
qed

text \<open>
  C2, as the code has it. For a request with \<^verbatim>\<open>jsonrpc\<close> \<^verbatim>\<open>2.0\<close>, whatever the
  advanced dispatcher answers is either an envelope whose id is the request's id (null
  when the request has none), in every branch and for results and errors alike, or the
  answer of the tool \<^verbatim>\<open>analyze_protein_stream\<close> for a protein that is in the
  database: a stream of progress chunks, which is no envelope and carries no id.
\<close>

theorem response_id_echo:
  assumes "dict_get_default d ''jsonrpc'' JNull = JStr ''2.0''"
  shows "(wf_db DB \<and> wf_params (dict_get_default d ''params'' (JObj [])) \<longrightarrow>
            (\<exists>r. handle_mcp_advanced L DB (JObj d) = Inr r))
     \<and> (\<forall>r. handle_mcp_advanced L DB (JObj d) = Inr r \<longrightarrow>
            response_id r = Some (dict_get_default d ''id'' JNull)
            \<or> (\<exists>p a pid. dict_get d ''method'' = Some (JStr ''tools/call'')
                  \<and> dict_get d ''params'' = Some (JObj p)
                  \<and> dict_get p ''name'' = Some (JStr ''analyze_protein_stream'')
                  \<and> dict_get_default p ''arguments'' (JObj []) = JObj a
                  \<and> dict_get a ''protein_id'' = Some (JStr pid)
                  \<and> dict_contains DB pid \<and> r = StreamResponse (generate_stream L DB pid)))"
  using handle_mcp_advanced_returns [of DB d L] handle_mcp_advanced_id [OF assms, of L DB]
  by blast

theorem response_id_echo_witness:
  "wf_db sample_db
   \<and> wf_params (JObj [(''name'', JStr ''get_protein_hypothesis''),
                      (''arguments'', JObj [(''protein_id'', JStr ''NOPE'')])])
   \<and> handle_mcp_advanced sample_lib sample_db
      (tools_call_request (JInt 7) ''get_protein_hypothesis'' [(''protein_id'', JStr ''NOPE'')])
     = Inr (Jsonify (error_envelope (- 32602) ''Protein not found'' (JInt 7)))
   \<and> response_id (Jsonify (error_envelope (- 32602) ''Protein not found'' (JInt 7))) = Some (JInt 7)"
proof -
  let ?d = "[(''jsonrpc'', JStr ''2.0''), (''id'', JInt 7), (''method'', JStr ''tools/call''),
      (''params'', JObj [(''name'', JStr ''get_protein_hypothesis''),
                         (''arguments'', JObj [(''protein_id'', JStr ''NOPE'')])])]"
  have v: "dict_get_default ?d ''jsonrpc'' JNull = JStr ''2.0''"
    by (simp add: dict_get_default_def)
  have w: "wf_db sample_db" by code_simp
  have q: "wf_params (JObj [(''name'', JStr ''get_protein_hypothesis''),
                      (''arguments'', JObj [(''protein_id'', JStr ''NOPE'')])])" by code_simp
  have h: "handle_mcp_advanced sample_lib sample_db (JObj ?d)
     = Inr (Jsonify (error_envelope (- 32602) ''Protein not found'' (JInt 7)))" by code_simp
  from response_id_echo [OF v, of sample_db sample_lib] h w q show ?thesis
    by (simp add: tools_call_request_def)
qed

text \<open>
  The claim as worded fails for a call of \<^verbatim>\<open>analyze_protein_stream\<close> with id 7: the
  answer is the stream of chunks, and neither the stream nor a chunk has an id.
\<close>

theorem stream_response_no_id_counterexample:
  "handle_mcp_advanced sample_lib sample_db
      (tools_call_request (JInt 7) ''analyze_protein_stream'' [(''protein_id'', JStr ''P53_HUMAN'')])
     = Inr (StreamResponse (Inr
         [''data: '' @ show_json (progress_chunk 0 3 ''load'') @ ''\<newline>\<newline>'',
          ''data: '' @ show_json (progress_chunk 2 3 ''done'') @ ''\<newline>\<newline>'']))
   \<and> response_id (StreamResponse (Inr
         [''data: '' @ show_json (progress_chunk 0 3 ''load'') @ ''\<newline>\<newline>'',
          ''data: '' @ show_json (progress_chunk 2 3 ''done'') @ ''\<newline>\<newline>''])) = None
   \<and> dict_get [(''jsonrpc'', JStr ''2.0''), (''method'', JStr ''tools/call/progress''),
         (''params'', JObj [(''progress'', JObj
            [(''progress'', JFloat (1 / 3)), (''message'', JStr ''load'')])])] ''id'' = None
   \<and> progress_chunk 0 3 ''load'' = JObj [(''jsonrpc'', JStr ''2.0''), (''method'', JStr ''tools/call/progress''),
         (''params'', JObj [(''progress'', JObj
            [(''progress'', JFloat (1 / 3)), (''message'', JStr ''load'')])])]"
  by code_simp

section \<open>Properties of streaming\<close>

lemma enumerate_from_Nil [simp]: "enumerate_from i [] = []"
  by (simp add: enumerate_from_def)

lemma enumerate_from_Cons [simp]:
  "enumerate_from i (x # xs) = (i, x) # enumerate_from (Suc i) xs"
  by (simp add: enumerate_from_def upt_conv_Cons del: upt_Suc)

lemma map_fst_enumerate_from: "map fst (enumerate_from i xs) = [i ..< i + length xs]"
  by (simp add: enumerate_from_def)

lemma progress_of_append: "progress_of (xs @ ys) = progress_of xs @ progress_of ys"
  by (induction xs rule: progress_of.induct) auto

lemma progress_of_report_lines:
  "progress_of (report_lines L i n lines) = map (\<lambda>(j, l). (j, n, l)) (enumerate_from i lines)"
  by (induction lines arbitrary: i) auto

lemma report_lines_notifications: "list_all is_notification (report_lines L i n lines)"
  by (induction lines arbitrary: i) (auto simp: is_notification_def)

lemma str_items_map_JStr [simp]: "str_items (map JStr ls) = Inr ls"
  by (induction ls) auto

lemma stream_chunks_filter:
  "stream_chunks L i n lines
     = map (\<lambda>(j, l). ''data: '' @ json_dumps L None (progress_chunk j n l) @ ''\<newline>\<newline>'')
         (filter (\<lambda>(j, l). strip_nonempty l) (enumerate_from i lines))"
  by (induction lines arbitrary: i) auto

lemma length_default_log:
  "log_lines_of (default_log L protein_data protein_id) = Inr lines \<Longrightarrow> length lines = 12"
  by (auto simp: log_lines_of_def default_log_def)

lemma stream_progress_order:
  assumes "dict_get DB protein_id = Some protein_data"
    and "log_lines_of (dict_get_default protein_data ''log'' (default_log L protein_data protein_id))
           = Inr (map JStr ls)"
  shows "stream_analysis_log L DB protein_id
           = report_lines L 1 (length ls) (map JStr ls) @ [Returned (join_nl ls)]
     \<and> list_all is_notification (report_lines L 1 (length ls) (map JStr ls))
     \<and> progress_of (stream_analysis_log L DB protein_id)
           = map (\<lambda>(i, l). (i, length ls, JStr l)) (enumerate_from 1 ls)
     \<and> map fst (progress_of (stream_analysis_log L DB protein_id)) = [1 ..< 1 + length ls]
     \<and> (dict_get protein_data ''log'' = None \<longrightarrow> length ls = 12)"
proof -
  have run: "stream_analysis_log L DB protein_id
           = report_lines L 1 (length ls) (map JStr ls) @ [Returned (join_nl ls)]"
    using assms by (simp add: stream_analysis_log_def)
  have en: "enumerate_from i (map JStr ls) = map (\<lambda>(j, l). (j, JStr l)) (enumerate_from i ls)" for i
    by (induction ls arbitrary: i) auto
  have prog: "progress_of (stream_analysis_log L DB protein_id)
           = map (\<lambda>(i, l). (i, length ls, JStr l)) (enumerate_from 1 ls)"
    by (simp add: run progress_of_append progress_of_report_lines en split_def)
  have seq: "map fst (progress_of (stream_analysis_log L DB protein_id)) = [1 ..< 1 + length ls]"
    unfolding prog using map_fst_enumerate_from [of 1 ls] by (simp add: split_def comp_def)
  have twelve: "dict_get protein_data ''log'' = None \<longrightarrow> length ls = 12"
    using assms(2) length_default_log [of L protein_data protein_id "map JStr ls"]
    by (auto simp: dict_get_default_def dict_get_def)
  show ?thesis
    using run prog seq twelve report_lines_notifications by blast
qed

lemma generate_stream_chunks:
  assumes "dict_get protein_db protein_id = Some protein"
    and "dict_get_default protein ''log'' (JStr []) = JStr s"
  shows "generate_stream L protein_db protein_id
     = Inr (map (\<lambda>(i, l). ''data: '' @ json_dumps L None (progress_chunk i (length (split_nl s)) l) @ ''\<newline>\<newline>'')
              (filter (\<lambda>(i, l). strip_nonempty l) (enumerate_from 0 (split_nl s))))"
  using assms by (simp add: generate_stream_def dict_item_def dict_get_def Let_def stream_chunks_filter)

text \<open>The logs the premise of the next theorem covers: none, a string, a list of strings.\<close>

lemma default_log_lines:
  "log_lines_of (default_log L protein_data protein_id)
     = Inr (map JStr
        [''Starting analysis of '' @ py_format L (dict_get_default protein_data ''name'' (JStr protein_id)),
         ''Loading sequence data...'',
         ''Analyzing domain structure...'',
         ''Predicting secondary structure...'',
         ''Identifying functional motifs...'',
         ''Comparing with homologs...'',
         ''Checking post-translational modifications...'',
         ''Validating structural predictions...'',
         ''Assessing stability...'',
         ''Evaluating interaction partners...'',
         ''Generating final report...'',
         ''Analysis complete. Function: '' @ py_format L (dict_get_default protein_data ''function'' (JStr ''Unknown''))])"
  by (simp add: log_lines_of_def default_log_def)

lemma log_lines_of_shapes:
  "(dict_get protein_data ''log'' = None \<longrightarrow>
      (\<exists>ls. log_lines_of (dict_get_default protein_data ''log'' (default_log L protein_data protein_id))
               = Inr (map JStr ls)))
   \<and> (dict_get protein_data ''log'' = Some (JStr s) \<longrightarrow>
      log_lines_of (dict_get_default protein_data ''log'' (default_log L protein_data protein_id))
        = Inr (map JStr (split_nl s)))
   \<and> (dict_get protein_data ''log'' = Some (JList (map JStr ls)) \<longrightarrow>
      log_lines_of (dict_get_default protein_data ''log'' (default_log L protein_data protein_id))
        = Inr (map JStr ls))"
proof -
  have "\<exists>ls. log_lines_of (default_log L protein_data protein_id) = Inr (map JStr ls)"
    using default_log_lines by blast
  then show ?thesis
    by (auto simp: dict_get_default_def dict_get_def log_lines_of_def)
qed

text \<open>
  C4, as the code has it. A run of the SDK tool \<^verbatim>\<open>stream_analysis_log\<close> over a log of
  N string lines (N = 12 when the record has no log) emits exactly N progress
  notifications, numbered 1..N in this order, each with total N and its line as message,
  and returns the lines joined by newlines after all of them. The tool
  \<^verbatim>\<open>analyze_protein_stream\<close> of the hand-written server, on an ASCII log, answers with
  a stream that holds one chunk for each line that is not blank, carrying the fraction
  (i+1)/N for the line of index i, and nothing else: no total, no final value. Outside
  ASCII the whitespace test of the model is not Python's, and nothing is stated of this
  tool.
\<close>

theorem streaming_progress:
  "(dict_get DB protein_id = Some protein_data
      \<and> log_lines_of (dict_get_default protein_data ''log'' (default_log L protein_data protein_id))
           = Inr (map JStr ls) \<longrightarrow>
        stream_analysis_log L DB protein_id
           = report_lines L 1 (length ls) (map JStr ls) @ [Returned (join_nl ls)]
        \<and> list_all is_notification (report_lines L 1 (length ls) (map JStr ls))
        \<and> progress_of (stream_analysis_log L DB protein_id)
           = map (\<lambda>(i, l). (i, length ls, JStr l)) (enumerate_from 1 ls)
        \<and> map fst (progress_of (stream_analysis_log L DB protein_id)) = [1 ..< 1 + length ls]
        \<and> (dict_get protein_data ''log'' = None \<longrightarrow> length ls = 12))
   \<and> (dict_get DB protein_id = Some protein_data
      \<and> dict_get_default protein_data ''log'' (JStr []) = JStr s \<and> is_ascii s \<longrightarrow>
        handle_mcp_advanced L DB
          (tools_call_request request_id ''analyze_protein_stream'' [(''protein_id'', JStr protein_id)])
           = Inr (StreamResponse (generate_stream L DB protein_id))
        \<and> generate_stream L DB protein_id
           = Inr (map (\<lambda>(i, l). ''data: '' @ json_dumps L None (progress_chunk i (length (split_nl s)) l)
                                  @ ''\<newline>\<newline>'')
                    (filter (\<lambda>(i, l). strip_nonempty l) (enumerate_from 0 (split_nl s)))))"
proof -
  have call: "dict_get DB protein_id = Some protein_data \<Longrightarrow>
      handle_mcp_advanced L DB
          (tools_call_request request_id ''analyze_protein_stream'' [(''protein_id'', JStr protein_id)])
           = Inr (StreamResponse (generate_stream L DB protein_id))"
    by (simp add: handle_mcp_advanced_def advanced_tools_call_def tool_analyze_protein_stream_def
          tools_call_request_def py_get_def dict_get_default_def key_in_db_def dict_contains_def
          dict_get_def py_format_def)
  show ?thesis
    using stream_progress_order [of DB protein_id protein_data L ls]
      generate_stream_chunks [of DB protein_id protein_data s L] call
    by blast
qed

theorem streaming_progress_witness:
  "is_ascii ''load\<newline>\<newline>done''
   \<and> progress_of (stream_analysis_log sample_lib sample_db ''P53_HUMAN'')
     = [(1, 3, JStr ''load''), (2, 3, JStr []), (3, 3, JStr ''done'')]
   \<and> stream_analysis_log sample_lib sample_db ''P53_HUMAN''
     = report_lines sample_lib 1 3 [JStr ''load'', JStr [], JStr ''done'']
       @ [Returned ''load\<newline>\<newline>done'']
   \<and> generate_stream sample_lib sample_db ''P53_HUMAN''
     = Inr [''data: '' @ json_dumps sample_lib None (progress_chunk 0 3 ''load'') @ ''\<newline>\<newline>'',
            ''data: '' @ json_dumps sample_lib None (progress_chunk 2 3 ''done'') @ ''\<newline>\<newline>'']"
proof -
  let ?rec = "[(''name'', JStr ''Cellular tumor antigen P53''),
         (''organism'', JStr ''Homo sapiens''),
         (''function'', JStr ''Acts as a tumor suppressor''),
         (''log'', JStr ''load\<newline>\<newline>done'')]"
  have a: "dict_get sample_db ''P53_HUMAN'' = Some ?rec" by code_simp
  have s: "split_nl ''load\<newline>\<newline>done'' = [''load'', [], ''done'']" by code_simp
  have b: "log_lines_of (dict_get_default ?rec ''log'' (default_log sample_lib ?rec ''P53_HUMAN''))
      = Inr (map JStr [''load'', [], ''done''])"
    by (simp add: dict_get_default_def log_lines_of_def s)
  have c: "dict_get_default ?rec ''log'' (JStr []) = JStr ''load\<newline>\<newline>done''"
    by (simp add: dict_get_default_def)
  have sn: "strip_nonempty ''load''" "\<not> strip_nonempty []" "strip_nonempty ''done''"
    by code_simp+
  have j: "join_nl [''load'', [], ''done''] = ''load\<newline>\<newline>done''" by simp
  have asc: "is_ascii ''load\<newline>\<newline>done''" by code_simp
  show ?thesis
    using streaming_progress [where DB = sample_db and protein_id = "''P53_HUMAN''" and protein_data = ?rec
        and L = sample_lib and ls = "[''load'', [], ''done'']" and s = "''load\<newline>\<newline>done''"
        and request_id = JNull] a b c asc
    by (simp add: s sn j eval_nat_numeral)
qed

text \<open>
  The claim as worded fails for the hand-written server on an ASCII log of 3 lines with
  an empty one: 2 chunks are sent, with the fractions 1/3 and 3/3, and no joined result.
\<close>

theorem generate_stream_blank_line_counterexample:
  "is_ascii ''load\<newline>\<newline>done''
   \<and> split_nl ''load\<newline>\<newline>done'' = [''load'', [], ''done'']
   \<and> dict_get_default (the (dict_get sample_db ''P53_HUMAN'')) ''log'' (JStr []) = JStr ''load\<newline>\<newline>done''
   \<and> generate_stream sample_lib sample_db ''P53_HUMAN''
     = Inr [''data: '' @ show_json (progress_chunk 0 3 ''load'') @ ''\<newline>\<newline>'',
            ''data: '' @ show_json (progress_chunk 2 3 ''done'') @ ''\<newline>\<newline>'']
   \<and> progress_chunk 0 3 ''load'' = JObj [(''jsonrpc'', JStr ''2.0''), (''method'', JStr ''tools/call/progress''),
         (''params'', JObj [(''progress'', JObj
            [(''progress'', JFloat (1 / 3)), (''message'', JStr ''load'')])])]
   \<and> progress_chunk 2 3 ''done'' = JObj [(''jsonrpc'', JStr ''2.0''), (''method'', JStr ''tools/call/progress''),
         (''params'', JObj [(''progress'', JObj
            [(''progress'', JFloat 1), (''message'', JStr ''done'')])])]"
  by code_simp

end
